theory Spec2Isabelle
  imports Main "HOL-Library.Word"
begin

section \<open>Type descriptors (reflect.Type)\<close>

text \<open>
  A \<^verbatim>\<open>reflect.Type\<close> is a pointer to a runtime type descriptor; two types are the
  same type exactly when the pointers are equal. The model names a descriptor by a
  number (\<open>tid\<close>) and keeps the descriptors in a table (\<open>universe\<close>), so that type
  identity is equality of \<open>tid\<close>s and a type may refer to itself.
\<close>

type_synonym tid = nat

datatype Kind =
    KBool | KInt | KInt8 | KInt16 | KInt32 | KInt64
  | KUint | KUint8 | KUint16 | KUint32 | KUint64 | KUintptr
  | KFloat32 | KFloat64 | KComplex64 | KComplex128
  | KArray | KChan | KFunc | KInterface | KMap | KPtr | KSlice | KString | KStruct
  | KUnsafePointer

text \<open>
  \<^verbatim>\<open>reflect.StructField\<close>: the fields the encoder reads. \<open>Tag\<close> is the struct tag in
  its conventional form, a list of \<open>key:"value"\<close> pairs.
\<close>

record StructField =
  Name :: string
  Type :: tid
  Tag :: "(string \<times> string) list"
  Offset :: nat

text \<open>
  The kind of a type together with what \<^verbatim>\<open>Elem()\<close>, \<^verbatim>\<open>Key()\<close>, \<^verbatim>\<open>Len()\<close>,
  \<^verbatim>\<open>NumField()\<close>/\<^verbatim>\<open>Field(i)\<close> and \<^verbatim>\<open>NumMethod()\<close> return for that kind.
\<close>

datatype Shape =
    TBool | TInt | TInt8 | TInt16 | TInt32 | TInt64
  | TUint | TUint8 | TUint16 | TUint32 | TUint64 | TUintptr
  | TFloat32 | TFloat64 | TComplex64 | TComplex128
  | TString | TUnsafePointer
  | TArray tid nat
  | TChan tid
  | TFunc
  | TInterface nat
  | TMap tid tid
  | TPtr tid
  | TSlice tid
  | TStruct "StructField list"

record rtype =
  shape :: Shape
  StringOf :: string
  Size :: nat
  ImplementsError :: bool
  ImplementsMarshaler :: bool

type_synonym universe = "tid \<Rightarrow> rtype"

fun kindOfShape :: "Shape \<Rightarrow> Kind" where
  "kindOfShape TBool = KBool"
| "kindOfShape TInt = KInt"
| "kindOfShape TInt8 = KInt8"
| "kindOfShape TInt16 = KInt16"
| "kindOfShape TInt32 = KInt32"
| "kindOfShape TInt64 = KInt64"
| "kindOfShape TUint = KUint"
| "kindOfShape TUint8 = KUint8"
| "kindOfShape TUint16 = KUint16"
| "kindOfShape TUint32 = KUint32"
| "kindOfShape TUint64 = KUint64"
| "kindOfShape TUintptr = KUintptr"
| "kindOfShape TFloat32 = KFloat32"
| "kindOfShape TFloat64 = KFloat64"
| "kindOfShape TComplex64 = KComplex64"
| "kindOfShape TComplex128 = KComplex128"
| "kindOfShape TString = KString"
| "kindOfShape TUnsafePointer = KUnsafePointer"
| "kindOfShape (TArray e n) = KArray"
| "kindOfShape (TChan e) = KChan"
| "kindOfShape TFunc = KFunc"
| "kindOfShape (TInterface m) = KInterface"
| "kindOfShape (TMap k e) = KMap"
| "kindOfShape (TPtr e) = KPtr"
| "kindOfShape (TSlice e) = KSlice"
| "kindOfShape (TStruct fs) = KStruct"

definition Kind :: "universe \<Rightarrow> tid \<Rightarrow> Kind" where
  "Kind U t = kindOfShape (shape (U t))"

text \<open>
  \<^verbatim>\<open>var bytesType = reflect.TypeOf([]byte(nil))\<close>: the descriptor of the unnamed type
  \<^verbatim>\<open>[]byte\<close>. It is descriptor number 0 of every universe.
\<close>

definition bytesType :: tid where
  "bytesType = 0"

section \<open>Encoders\<close>

text \<open>
  One constructor for each implementation of the \<^verbatim>\<open>Encoder\<close> interface that
  \<^verbatim>\<open>encoder.go\<close> builds. A \<^verbatim>\<open>sampleInterface\<close> is the interface header of a fresh
  value of a type; the model keeps its type word, the descriptor.

  Modelled from the spec: the declaration of \<^verbatim>\<open>mapEncoder\<close> is not among the sources.
  The spec gives it a key-encoding strategy and a value encoder; the Go composite
  literal leaves a field it does not name at its zero value, the nil interface, which
  is \<open>None\<close> here.
\<close>

datatype Encoder =
    BytesEncoder
  | PointerEncoder Encoder
  | ErrorEncoder tid
  | JsonMarshalerEncoder tid
  | Int8Encoder | Uint8Encoder | Int16Encoder | Uint16Encoder
  | Int32Encoder | Uint32Encoder | Int64Encoder | Uint64Encoder
  | LossyFloat64Encoder | LossyFloat32Encoder
  | StringEncoder
  | SliceEncoder Encoder nat
  | ArrayEncoder Encoder nat nat
  | StructEncoder "structEncoderField list"
  | MapEncoder Encoder "Encoder option" tid
  | NonEmptyInterfaceEncoder
  | EmptyInterfaceEncoder
  | UnsupportedEncoder string
  | OnePtrInterfaceEncoder Encoder
  | MapStringKeyEncoder Encoder
  | MapInterfaceKeyEncoder
  | MapNumberKeyEncoder Encoder
and structEncoderField =
    StructEncoderField (fieldOffset: nat) (fieldPrefix: string) (fieldEncoder: Encoder)

text \<open>
  A run of the builder either returns or stops: by a run-time panic (an index out of
  range, a \<^verbatim>\<open>reflect\<close> accessor called on a type of the wrong kind, a method
  called on a nil interface), or because
  the recursion did not end within the fuel given (on a type that contains itself the
  Go recursion does not end at all).
\<close>

datatype fault = IndexOutOfRange | ReflectPanic | NilDereference | OutOfFuel

type_synonym keycache = "tid \<rightharpoonup> Encoder"

type_synonym 'a build = "fault + ('a \<times> keycache)"

definition andThen :: "'a build \<Rightarrow> ('a \<Rightarrow> keycache \<Rightarrow> 'b build) \<Rightarrow> 'b build" where
  "andThen r f = (case r of Inl e \<Rightarrow> Inl e | Inr (x, kc) \<Rightarrow> f x kc)"

section \<open>Struct field names\<close>

text \<open>
  \<^verbatim>\<open>unicode.IsUpper\<close> on a rune below 256 reads the Latin-1 property table: the
  upper-case letters there are A to Z, U+00C0 to U+00D6 and U+00D8 to U+00DE.
  \<^verbatim>\<open>rune(field.Name[0])\<close> is the first byte of the name, so it is below 256.
\<close>

definition IsUpper :: "char \<Rightarrow> bool" where
  "IsUpper c = (let r = (of_char c :: nat) in
     (65 \<le> r \<and> r \<le> 90) \<or> (192 \<le> r \<and> r \<le> 214) \<or> (216 \<le> r \<and> r \<le> 222))"

text \<open>\<^verbatim>\<open>field.Tag.Get(key)\<close>: the value of the first pair with that key, else the empty string.\<close>

definition TagGet :: "(string \<times> string) list \<Rightarrow> string \<Rightarrow> string" where
  "TagGet tag k = (case map_of tag k of None \<Rightarrow> [] | Some v \<Rightarrow> v)"

text \<open>\<^verbatim>\<open>strings.Split(s, sep)\<close> for a separator of one character.\<close>

fun Split :: "string \<Rightarrow> char \<Rightarrow> string list" where
  "Split [] sep = [] # []"
| "Split (c # cs) sep =
     (if c = sep then [] # Split cs sep
      else (case Split cs sep of
              [] \<Rightarrow> [c] # []
            | p # ps \<Rightarrow> (c # p) # ps))"

text \<open>
  \<^verbatim>\<open>getFieldName\<close>. Indexing \<^verbatim>\<open>field.Name[0]\<close> panics on an empty name and
  \<^verbatim>\<open>parts[0]\<close> on an empty list.
\<close>

definition getFieldName :: "StructField \<Rightarrow> fault + string" where
  "getFieldName field =
     (case Name field of
        [] \<Rightarrow> Inl IndexOutOfRange
      | c # _ \<Rightarrow>
          if \<not> IsUpper c then Inr []
          else let jsonTag = TagGet (Tag field) ''json'' in
            if jsonTag = [] then Inr (Name field)
            else (case Split jsonTag (CHR '','') of
                    [] \<Rightarrow> Inl IndexOutOfRange
                  | p0 # _ \<Rightarrow>
                      if p0 = ''-'' then Inr []
                      else if p0 = [] then Inr (Name field)
                      else Inr p0))"

section \<open>The builder\<close>

text \<open>\<^verbatim>\<open>isOnePtr\<close>.\<close>

definition isOnePtr :: "universe \<Rightarrow> tid \<Rightarrow> bool" where
  "isOnePtr U valType =
     (if Kind U valType = KPtr then True
      else if (case shape (U valType) of
                 TStruct fs \<Rightarrow> length fs = 1 \<and> Kind U (Type (fs ! 0)) = KPtr
               | _ \<Rightarrow> False) then True
      else if (case shape (U valType) of
                 TArray e n \<Rightarrow> n = 1 \<and> Kind U e = KPtr
               | _ \<Rightarrow> False) then True
      else False)"

text \<open>
  The loop of \<^verbatim>\<open>encoderOfStruct\<close> over the fields from index \<open>i\<close> on, with the slice
  \<^verbatim>\<open>fields\<close> built so far (\<open>flds\<close>). The loop variable \<^verbatim>\<open>prefix\<close> (\<open>prefix'\<close>) shadows the parameter of the
  function, so the nested call receives the key text, not the path of the struct.
  \<open>enc\<close> is the recursive call of \<^verbatim>\<open>encoderOf\<close>.
\<close>

fun encoderOfStruct_loop ::
  "(string \<Rightarrow> tid \<Rightarrow> keycache \<Rightarrow> Encoder build) \<Rightarrow> StructField list \<Rightarrow>
   structEncoderField list \<Rightarrow> keycache \<Rightarrow> (structEncoderField list) build" where
  "encoderOfStruct_loop enc [] flds kc = Inr (flds, kc)"
| "encoderOfStruct_loop enc (field # rest) flds kc =
     (case getFieldName field of
        Inl e \<Rightarrow> Inl e
      | Inr name \<Rightarrow>
          if name = [] then encoderOfStruct_loop enc rest flds kc
          else
            let prefix' = (if length flds \<noteq> 0 then '','' else []) @ ''\"'' @ name @ ''\":''
            in andThen (enc (prefix' @ '' .'' @ name) (Type field) kc)
                 (\<lambda>e kc'. encoderOfStruct_loop enc rest
                    (flds @ [StructEncoderField (Offset field) prefix' e]) kc'))"

text \<open>
  \<^verbatim>\<open>encoderOfStruct\<close>. \<^verbatim>\<open>NumField()\<close> panics on a type that is not a struct; the
  function is called on types of kind Struct only.
\<close>

definition encoderOfStruct ::
  "(string \<Rightarrow> tid \<Rightarrow> keycache \<Rightarrow> Encoder build) \<Rightarrow> universe \<Rightarrow> string \<Rightarrow> tid \<Rightarrow>
   keycache \<Rightarrow> Encoder build" where
  "encoderOfStruct enc U prefix' valType kc =
     (case shape (U valType) of
        TStruct fs \<Rightarrow>
          andThen (encoderOfStruct_loop enc fs [] kc)
            (\<lambda>flds kc'. Inr (StructEncoder flds, kc'))
      | _ \<Rightarrow> Inl ReflectPanic)"

text \<open>\<^verbatim>\<open>_encoderOfMapKey\<close>.\<close>

definition encoderOfMapKey_inner ::
  "(string \<Rightarrow> tid \<Rightarrow> keycache \<Rightarrow> Encoder build) \<Rightarrow> universe \<Rightarrow> string \<Rightarrow> tid \<Rightarrow>
   keycache \<Rightarrow> Encoder build" where
  "encoderOfMapKey_inner enc U prefix' keyType kc =
     andThen (enc (prefix' @ '' [mapKey]'') keyType kc)
       (\<lambda>keyEncoder kc'.
          if Kind U keyType = KString \<or> keyType = bytesType
          then Inr (MapStringKeyEncoder keyEncoder, kc')
          else if Kind U keyType = KInterface
          then Inr (MapInterfaceKeyEncoder, kc')
          else Inr (MapNumberKeyEncoder keyEncoder, kc'))"

text \<open>
  \<^verbatim>\<open>encoderOfMapKey\<close>, with \<^verbatim>\<open>mapKeyEncoderCache\<close> as the state that the builder
  threads through.
\<close>

definition encoderOfMapKey ::
  "(string \<Rightarrow> tid \<Rightarrow> keycache \<Rightarrow> Encoder build) \<Rightarrow> universe \<Rightarrow> string \<Rightarrow> tid \<Rightarrow>
   keycache \<Rightarrow> Encoder build" where
  "encoderOfMapKey enc U prefix' keyType kc =
     (case kc keyType of
        Some encoderObj \<Rightarrow> Inr (encoderObj, kc)
      | None \<Rightarrow>
          andThen (encoderOfMapKey_inner enc U prefix' keyType kc)
            (\<lambda>encoder kc'. Inr (encoder, kc'(keyType \<mapsto> encoder))))"

text \<open>
  \<^verbatim>\<open>encoderOfMap\<close>. \<^verbatim>\<open>Key()\<close> panics on a type that is not a map. The element
  encoder is built, and wrapped when the element type is one pointer; the composite
  literal that is returned names \<^verbatim>\<open>keyEncoder\<close> and \<^verbatim>\<open>sampleInterface\<close> only.
\<close>

definition encoderOfMap ::
  "(string \<Rightarrow> tid \<Rightarrow> keycache \<Rightarrow> Encoder build) \<Rightarrow> universe \<Rightarrow> string \<Rightarrow> tid \<Rightarrow>
   keycache \<Rightarrow> Encoder build" where
  "encoderOfMap enc U prefix' valType kc =
     (case shape (U valType) of
        TMap keyT elemType \<Rightarrow>
          andThen (encoderOfMapKey enc U prefix' keyT kc)
            (\<lambda>keyEncoder kc1.
               andThen (enc (prefix' @ '' [mapElem]'') elemType kc1)
                 (\<lambda>elemEncoder0 kc2.
                    let elemEncoder =
                          (if isOnePtr U elemType then OnePtrInterfaceEncoder elemEncoder0
                           else elemEncoder0)
                    in Inr (MapEncoder keyEncoder None valType, kc2)))
      | _ \<Rightarrow> Inl ReflectPanic)"

text \<open>
  \<^verbatim>\<open>fmt.Sprintf(`"can not encode %s %s to json"`, valType.String(), prefix)\<close>.
\<close>

definition unsupportedMsg :: "universe \<Rightarrow> string \<Rightarrow> tid \<Rightarrow> string" where
  "unsupportedMsg U prefix' valType =
     ''\"can not encode '' @ StringOf (U valType) @ '' '' @ prefix' @ '' to json\"''"

text \<open>
  The \<^verbatim>\<open>switch valType.Kind()\<close> of \<^verbatim>\<open>encoderOf\<close> with its default, the
  unsupported encoder. \<open>enc\<close> is the recursive call of \<^verbatim>\<open>encoderOf\<close>.
\<close>

definition encoderOf_switch ::
  "(string \<Rightarrow> tid \<Rightarrow> keycache \<Rightarrow> Encoder build) \<Rightarrow> universe \<Rightarrow> string \<Rightarrow> tid \<Rightarrow>
   keycache \<Rightarrow> Encoder build" where
  "encoderOf_switch enc U prefix' valType kc =
     (case shape (U valType) of
        TInt8 \<Rightarrow> Inr (Int8Encoder, kc)
      | TUint8 \<Rightarrow> Inr (Uint8Encoder, kc)
      | TInt16 \<Rightarrow> Inr (Int16Encoder, kc)
      | TUint16 \<Rightarrow> Inr (Uint16Encoder, kc)
      | TInt32 \<Rightarrow> Inr (Int32Encoder, kc)
      | TUint32 \<Rightarrow> Inr (Uint32Encoder, kc)
      | TInt64 \<Rightarrow> Inr (Int64Encoder, kc)
      | TInt \<Rightarrow> Inr (Int64Encoder, kc)
      | TUint64 \<Rightarrow> Inr (Uint64Encoder, kc)
      | TUint \<Rightarrow> Inr (Uint64Encoder, kc)
      | TFloat64 \<Rightarrow> Inr (LossyFloat64Encoder, kc)
      | TFloat32 \<Rightarrow> Inr (LossyFloat32Encoder, kc)
      | TString \<Rightarrow> Inr (StringEncoder, kc)
      | TPtr elemT \<Rightarrow>
          andThen (enc (prefix' @ '' [ptrElem]'') elemT kc)
            (\<lambda>elemEncoder kc'. Inr (PointerEncoder elemEncoder, kc'))
      | TSlice elemT \<Rightarrow>
          andThen (enc (prefix' @ '' [sliceElem]'') elemT kc)
            (\<lambda>elemEncoder kc'. Inr (SliceEncoder elemEncoder (Size (U elemT)), kc'))
      | TArray elemT len \<Rightarrow>
          andThen (enc (prefix' @ '' [sliceElem]'') elemT kc)
            (\<lambda>elemEncoder kc'. Inr (ArrayEncoder elemEncoder (Size (U elemT)) len, kc'))
      | TStruct fs \<Rightarrow> encoderOfStruct enc U prefix' valType kc
      | TMap keyT elemT \<Rightarrow> encoderOfMap enc U prefix' valType kc
      | TInterface numMethod \<Rightarrow>
          if numMethod \<noteq> 0 then Inr (NonEmptyInterfaceEncoder, kc)
          else Inr (EmptyInterfaceEncoder, kc)
      | _ \<Rightarrow> Inr (UnsupportedEncoder (unsupportedMsg U prefix' valType), kc))"

text \<open>
  \<^verbatim>\<open>encoderOf\<close>. Each call takes one unit of fuel; the nested builders receive the
  recursive call with the fuel that is left.
\<close>

primrec encoderOf :: "nat \<Rightarrow> universe \<Rightarrow> string \<Rightarrow> tid \<Rightarrow> keycache \<Rightarrow> Encoder build" where
  "encoderOf 0 U prefix' valType kc = Inl OutOfFuel"
| "encoderOf (Suc n) U prefix' valType kc =
     (if bytesType = valType then Inr (BytesEncoder, kc)
      else if ImplementsError (U valType) \<and> Kind U valType = KPtr
      then Inr (PointerEncoder (ErrorEncoder valType), kc)
      else if ImplementsMarshaler (U valType) \<and> Kind U valType \<noteq> KPtr
      then Inr (JsonMarshalerEncoder valType, kc)
      else encoderOf_switch (encoderOf n U) U prefix' valType kc)"

section \<open>The registry\<close>

text \<open>The two package-level caches, \<^verbatim>\<open>encoderCache\<close> and \<^verbatim>\<open>mapKeyEncoderCache\<close>.\<close>

record registry =
  encoderCache :: "tid \<rightharpoonup> Encoder"
  mapKeyEncoderCache :: keycache

text \<open>\<^verbatim>\<open>EncoderOf\<close>.\<close>

definition EncoderOf :: "nat \<Rightarrow> universe \<Rightarrow> tid \<Rightarrow> registry \<Rightarrow> fault + (Encoder \<times> registry)" where
  "EncoderOf n U valType s =
     (case encoderCache s valType of
        Some encoderObj \<Rightarrow> Inr (encoderObj, s)
      | None \<Rightarrow>
          (case encoderOf n U [] valType (mapKeyEncoderCache s) of
             Inl e \<Rightarrow> Inl e
           | Inr (encoder0, kc') \<Rightarrow>
               let encoder =
                     (if isOnePtr U valType then OnePtrInterfaceEncoder encoder0
                      else encoder0)
               in Inr (encoder,
                       \<lparr>encoderCache = (encoderCache s)(valType \<mapsto> encoder),
                        mapKeyEncoderCache = kc'\<rparr>)))"


section \<open>Encoding and the formatter\<close>

text \<open>
  An \<^verbatim>\<open>unsafe.Pointer\<close> is an address. \<^verbatim>\<open>emptyInterface\<close> is the header of an
  \<^verbatim>\<open>interface{}\<close> value: the descriptor of its dynamic type (\<^verbatim>\<open>typ\<close>, here \<open>ityp\<close>;
  \<open>None\<close> in the nil interface) and the data word.
\<close>

type_synonym ptr = nat

record emptyInterface =
  ityp :: "tid option"
  word :: ptr

definition PtrOf :: "emptyInterface \<Rightarrow> ptr" where
  "PtrOf val = word val"

text \<open>
  \<^verbatim>\<open>Encode\<close>, the method of the \<^verbatim>\<open>Encoder\<close> interface. The sources hold the method of
  \<^verbatim>\<open>unsupportedEncoder\<close> alone.

  Modelled from the spec: the \<^verbatim>\<open>Encode\<close> methods of the other encoders are not among
  the sources. The spec makes each a function of the buffer and the raw handle that
  returns the extended buffer; they are the parameter \<open>others\<close>.
\<close>

definition Encode ::
  "(Encoder \<Rightarrow> string \<Rightarrow> ptr \<Rightarrow> string) \<Rightarrow> Encoder \<Rightarrow> string \<Rightarrow> ptr \<Rightarrow> string" where
  "Encode others e space p =
     (case e of
        UnsupportedEncoder msg \<Rightarrow> space @ msg
      | _ \<Rightarrow> others e space p)"

text \<open>
  \<^verbatim>\<open>jsonFormatter\<close> and its method \<^verbatim>\<open>Format\<close>. \<^verbatim>\<open>idx\<close> is a Go \<^verbatim>\<open>int\<close>; the
  index expression \<^verbatim>\<open>kv[formatter.idx]\<close> panics outside \<open>0 \<le> idx < len(kv)\<close>.
  The formatter holds an encoder: its \<^verbatim>\<open>encoder\<close> is not the nil interface.
\<close>

record jsonFormatter =
  idx :: int
  encoder :: Encoder

definition Format ::
  "(Encoder \<Rightarrow> string \<Rightarrow> ptr \<Rightarrow> string) \<Rightarrow> jsonFormatter \<Rightarrow> string \<Rightarrow>
   emptyInterface list \<Rightarrow> fault + string" where
  "Format others formatter space kv =
     (if 0 \<le> idx formatter \<and> idx formatter < int (length kv)
      then Inr (Encode others (encoder formatter) space (PtrOf (kv ! nat (idx formatter))))
      else Inl IndexOutOfRange)"

text \<open>
  The dispatcher as the spec words it: the runtime type of the value at the field index
  is resolved when \<^verbatim>\<open>Format\<close> runs, its encoder is looked up in the registry (and
  compiled when it is not there), and the value is encoded through its raw handle.
  \<^verbatim>\<open>Format\<close> above is the code; this is what it is compared with.
\<close>

definition Format_resolving ::
  "nat \<Rightarrow> universe \<Rightarrow> (Encoder \<Rightarrow> string \<Rightarrow> ptr \<Rightarrow> string) \<Rightarrow> jsonFormatter \<Rightarrow> string \<Rightarrow>
   emptyInterface list \<Rightarrow> registry \<Rightarrow> fault + (string \<times> registry)" where
  "Format_resolving n U others formatter space kv s =
     (if 0 \<le> idx formatter \<and> idx formatter < int (length kv)
      then (let val = kv ! nat (idx formatter) in
            case ityp val of
              None \<Rightarrow> Inl NilDereference
            | Some t \<Rightarrow>
                (case EncoderOf n U t s of
                   Inl e \<Rightarrow> Inl e
                 | Inr (enc, s') \<Rightarrow> Inr (Encode others enc space (PtrOf val), s')))
      else Inl IndexOutOfRange)"

section \<open>The unbounded executor\<close>

text \<open>
  An \<^verbatim>\<open>interface{}\<close> value as \<^verbatim>\<open>recover()\<close> returns it: nil, a value of dynamic
  type \<^verbatim>\<open>string\<close>, or a value of another dynamic type. Two interface values are
  equal when their dynamic types and their values are; the constant
  \<^verbatim>\<open>StopSignal\<close> converts to a value of dynamic type \<^verbatim>\<open>string\<close>.
\<close>

datatype any = NilValue | StringValue string | OtherValue nat

definition StopSignal :: string where
  "StopSignal = ''STOP!''"

text \<open>
  The state the executor works on: the map \<^verbatim>\<open>activeGoroutines\<close> (a missing key reads
  as 0; the counts are Go \<^verbatim>\<open>int\<close>s, 64 bits wide here) and the events that
  \<^verbatim>\<open>countlog\<close> has received. Every access to the map is made under
  \<^verbatim>\<open>activeGoroutinesMutex\<close>, so each is one step on this state.
\<close>

datatype event = FatalEvent string any

record world =
  activeGoroutines :: "string \<rightharpoonup> 64 word"
  events :: "event list"

definition counter :: "(string \<rightharpoonup> 64 word) \<Rightarrow> string \<Rightarrow> 64 word" where
  "counter m k = (case m k of None \<Rightarrow> 0 | Some c \<Rightarrow> c)"

text \<open>
  Modelled from the spec: \<^verbatim>\<open>countlog.Fatal\<close> is not among the sources. The spec has a
  panic "escalated as fatal": the call records a fatal event and returns.
\<close>

definition countlog_Fatal :: "string \<Rightarrow> any \<Rightarrow> world \<Rightarrow> world" where
  "countlog_Fatal ev err w = w\<lparr>events := events w @ [FatalEvent ev err]\<rparr>"

text \<open>
  \<^verbatim>\<open>recover()\<close> in a deferred function: it returns the value of the panic under way
  (nil when there is none) and stops the panic.
\<close>

definition recover :: "any option \<Rightarrow> any \<times> any option" where
  "recover panicking =
     (case panicking of None \<Rightarrow> (NilValue, None) | Some v \<Rightarrow> (v, None))"

text \<open>
  \<^verbatim>\<open>UnboundedExecutor.Go\<close>, the part that runs in the caller: the count of the start
  site \<^verbatim>\<open>startFrom\<close> goes up by one.
\<close>

definition Go :: "string \<Rightarrow> world \<Rightarrow> world" where
  "Go startFrom w =
     w\<lparr>activeGoroutines :=
         (activeGoroutines w)(startFrom \<mapsto> counter (activeGoroutines w) startFrom + 1)\<rparr>"

text \<open>
  The goroutine that \<^verbatim>\<open>Go\<close> starts, from the moment the handler has ended: the
  handler has returned or is panicking with a value, and the deferred function runs.
  The result is the new state and the panic that goes on (\<open>None\<close> when the goroutine
  ends in the normal way).
\<close>

datatype outcome = Returned | Panicked any

definition goroutine :: "string \<Rightarrow> outcome \<Rightarrow> world \<Rightarrow> world \<times> any option" where
  "goroutine startFrom handlerOutcome w =
     (let panicking = (case handlerOutcome of Returned \<Rightarrow> None | Panicked v \<Rightarrow> Some v);
          (recovered, panicking') = recover panicking;
          w1 = (if recovered \<noteq> NilValue \<and> recovered \<noteq> StringValue StopSignal
                then countlog_Fatal ''event!unbounded_executor.panic'' recovered w
                else w);
          w2 = w1\<lparr>activeGoroutines :=
                  (activeGoroutines w1)
                    (startFrom \<mapsto> counter (activeGoroutines w1) startFrom - 1)\<rparr>
      in (w2, panicking'))"

text \<open>What \<^verbatim>\<open>recover()\<close> returns in the deferred function, by the way the handler ended.\<close>

definition recovered :: "outcome \<Rightarrow> any" where
  "recovered out = (case out of Returned \<Rightarrow> NilValue | Panicked v \<Rightarrow> v)"

section \<open>What the spec says about struct fields\<close>

text \<open>
  The naming rule of the spec, in its own words. A name begins with an upper-case
  letter when its first character is one. A Go string holds UTF-8, so the first
  character is the code point that the first bytes of the name encode (\<open>firstRune\<close>,
  as \<^verbatim>\<open>utf8.DecodeRuneInString\<close> reads it; bytes that are no UTF-8 give U+FFFD, and
  no Go name has such bytes), and
  it is an upper-case letter when \<^verbatim>\<open>unicode.IsUpper\<close> says so: below 256 by the
  Latin-1 table, from 256 on by the table \<^verbatim>\<open>unicode.Upper\<close> of the Go library, which
  is the parameter \<open>upper\<close>.
\<close>

definition cont :: "char \<Rightarrow> bool" where
  "cont c = (128 \<le> (of_char c :: nat) \<and> (of_char c :: nat) < 192)"

text \<open>
  The second byte of a sequence has a narrower range after the first bytes E0, ED, F0
  and F4 (no overlong form, no surrogate, nothing above U+10FFFF).
\<close>

definition second :: "nat \<Rightarrow> char \<Rightarrow> bool" where
  "second x c =
     (let y = (of_char c :: nat) in
      if x = 224 then 160 \<le> y \<and> y < 192
      else if x = 237 then 128 \<le> y \<and> y < 160
      else if x = 240 then 144 \<le> y \<and> y < 192
      else if x = 244 then 128 \<le> y \<and> y < 144
      else 128 \<le> y \<and> y < 192)"

definition firstRune :: "string \<Rightarrow> nat option" where
  "firstRune s =
     (case s of
        [] \<Rightarrow> None
      | b0 # rest \<Rightarrow>
          let x = (of_char b0 :: nat) in
          if x < 128 then Some x
          else if 194 \<le> x \<and> x < 224 then
            (case rest of
               b1 # _ \<Rightarrow>
                 if second x b1 then Some ((x - 192) * 64 + (of_char b1 - 128)) else Some 65533
             | _ \<Rightarrow> Some 65533)
          else if 224 \<le> x \<and> x < 240 then
            (case rest of
               b1 # b2 # _ \<Rightarrow>
                 if second x b1 \<and> cont b2
                 then Some ((x - 224) * 4096 + (of_char b1 - 128) * 64 + (of_char b2 - 128))
                 else Some 65533
             | _ \<Rightarrow> Some 65533)
          else if 240 \<le> x \<and> x < 245 then
            (case rest of
               b1 # b2 # b3 # _ \<Rightarrow>
                 if second x b1 \<and> cont b2 \<and> cont b3
                 then Some ((x - 240) * 262144 + (of_char b1 - 128) * 4096
                            + (of_char b2 - 128) * 64 + (of_char b3 - 128))
                 else Some 65533
             | _ \<Rightarrow> Some 65533)
          else Some 65533)"

definition IsUpperRune :: "(nat \<Rightarrow> bool) \<Rightarrow> nat \<Rightarrow> bool" where
  "IsUpperRune upper r =
     (if r < 256
      then (65 \<le> r \<and> r \<le> 90) \<or> (192 \<le> r \<and> r \<le> 214) \<or> (216 \<le> r \<and> r \<le> 222)
      else upper r)"

definition beginsUpper :: "(nat \<Rightarrow> bool) \<Rightarrow> string \<Rightarrow> bool" where
  "beginsUpper upper name =
     (case firstRune name of None \<Rightarrow> False | Some r \<Rightarrow> IsUpperRune upper r)"

text \<open>
  The rest of the rule: the first comma-separated segment of the \<open>json\<close> annotation;
  a field is retained when its name begins with an upper-case letter and that segment
  is not \<open>-\<close>; its key is the segment when it is not empty and the field name
  otherwise; the key prefix of the retained field number \<open>i\<close> is the quoted key and a
  colon, after a comma when \<open>i\<close> is not 0.
\<close>

definition firstSegment :: "string \<Rightarrow> string" where
  "firstSegment s = takeWhile (\<lambda>c. c \<noteq> CHR '','') s"

definition jsonTagOf :: "StructField \<Rightarrow> string" where
  "jsonTagOf f = TagGet (Tag f) ''json''"

definition retained :: "(nat \<Rightarrow> bool) \<Rightarrow> StructField \<Rightarrow> bool" where
  "retained upper f =
     (beginsUpper upper (Name f) \<and> firstSegment (jsonTagOf f) \<noteq> ''-'')"

definition jsonKey :: "StructField \<Rightarrow> string" where
  "jsonKey f =
     (if firstSegment (jsonTagOf f) \<noteq> [] then firstSegment (jsonTagOf f) else Name f)"

definition keyPrefix :: "nat \<Rightarrow> string \<Rightarrow> string" where
  "keyPrefix i k = (if i = 0 then [] else '','') @ ''\"'' @ k @ ''\":''"

text \<open>
  What \<^verbatim>\<open>getFieldName\<close> tests in place of the first character: the first byte of the
  name, read as a code point of its own. \<open>kept\<close> is the field that the code keeps;
  \<open>asciiInitial\<close> is a name whose first byte is a whole character.
\<close>

definition firstByteUpper :: "string \<Rightarrow> bool" where
  "firstByteUpper name = (case name of [] \<Rightarrow> False | c # _ \<Rightarrow> IsUpper c)"

definition kept :: "StructField \<Rightarrow> bool" where
  "kept f = (firstByteUpper (Name f) \<and> firstSegment (jsonTagOf f) \<noteq> ''-'')"

definition asciiInitial :: "string \<Rightarrow> bool" where
  "asciiInitial name = (case name of [] \<Rightarrow> False | c # _ \<Rightarrow> (of_char c :: nat) < 128)"

definition plan :: "nat \<Rightarrow> StructField list \<Rightarrow> (nat \<times> string) list" where
  "plan k rs = map (\<lambda>(i, f). (Offset f, keyPrefix i (jsonKey f))) (enumerate k rs)"

section \<open>What the spec says about slices of bytes\<close>

text \<open>
  Modelled from the spec: the memory that a raw handle points into is not among the
  sources. The spec has a slice read at a fixed stride from contiguous storage:
  \<open>heap\<close> gives the slice header at an address (data pointer and length) and the
  byte at an address.
\<close>

record heap =
  sliceAt :: "ptr \<Rightarrow> ptr \<times> nat"
  byteAt :: "ptr \<Rightarrow> 8 word"

text \<open>The decimal literal of a number, and texts joined by commas.\<close>

definition digit :: "nat \<Rightarrow> char" where
  "digit d = ''0123456789'' ! d"

fun decimal :: "nat \<Rightarrow> string" where
  "decimal n = (if n < 10 then [digit n] else decimal (n div 10) @ [digit (n mod 10)])"

fun commaJoin :: "string list \<Rightarrow> string" where
  "commaJoin [] = []"
| "commaJoin [x] = x"
| "commaJoin (x # y # ys) = x @ '','' @ commaJoin (y # ys)"

text \<open>
  Modelled from the spec: the \<^verbatim>\<open>Encode\<close> methods of \<^verbatim>\<open>sliceEncoder\<close> and
  \<^verbatim>\<open>uint8Encoder\<close> are not among the sources. The spec has an unsigned integer
  appended as a decimal literal, and a slice appended as \<open>[\<close>, the encodings of its
  elements by the element encoder, joined by commas, and \<open>]\<close>; a slice of length zero
  and a nil slice both as \<open>[]\<close>. Every other encoder is left to \<open>rest\<close>.
\<close>

fun encodeSpec ::
  "heap \<Rightarrow> (Encoder \<Rightarrow> string \<Rightarrow> ptr \<Rightarrow> string) \<Rightarrow> Encoder \<Rightarrow> string \<Rightarrow> ptr \<Rightarrow> string" where
  "encodeSpec h rest Uint8Encoder space p = space @ decimal (unat (byteAt h p))"
| "encodeSpec h rest (SliceEncoder elemEncoder elemSize) space p =
     (case sliceAt h p of
        (data, len) \<Rightarrow>
          foldl (\<lambda>buf i. encodeSpec h rest elemEncoder (if i = 0 then buf else buf @ '','')
                            (data + i * elemSize))
            (space @ ''['') [0..<len] @ '']'')"
| "encodeSpec h rest e space p = rest e space p"

section \<open>Example types\<close>

text \<open>
  A universe of Go types on which the theorems below are tried:
  \<^verbatim>\<open>[]byte\<close> (0), \<^verbatim>\<open>uint8\<close> (1), \<^verbatim>\<open>string\<close> (2), \<^verbatim>\<open>int\<close> (3), \<^verbatim>\<open>*int\<close> (4),
  the struct \<^verbatim>\<open>main.T\<close> (5), \<^verbatim>\<open>map[string]*int\<close> (6), \<^verbatim>\<open>chan int\<close> (7),
  the list node \<^verbatim>\<open>type Node struct { Next *Node }\<close> (8) and \<^verbatim>\<open>*Node\<close> (9),
  \<^verbatim>\<open>func()\<close> (10), \<^verbatim>\<open>json.RawMessage\<close> (11: a defined type over \<^verbatim>\<open>[]byte\<close> with a
  \<^verbatim>\<open>MarshalJSON\<close> method), \<^verbatim>\<open>type MyBytes []byte\<close> (12),
  \<^verbatim>\<open>type F func()\<close> with a \<^verbatim>\<open>MarshalJSON\<close> method (13),
  \<^verbatim>\<open>type E struct{}\<close> with the methods \<^verbatim>\<open>Error\<close> and \<^verbatim>\<open>MarshalJSON\<close> (14) and
  \<^verbatim>\<open>*E\<close> (15), \<^verbatim>\<open>unsafe.Pointer\<close> (16), \<^verbatim>\<open>type Box struct { P *int }\<close> (17),
  \<^verbatim>\<open>[1]*int\<close> (18), \<^verbatim>\<open>type Err struct{}\<close> with the method \<^verbatim>\<open>Error\<close> (19),
  \<^verbatim>\<open>*M\<close> (20) for \<^verbatim>\<open>type M struct{}\<close> (21) whose \<^verbatim>\<open>MarshalJSON\<close> has a pointer
  receiver, \<^verbatim>\<open>*Err\<close> (22); every other number is \<^verbatim>\<open>bool\<close>.
\<close>

definition desc :: "Shape \<Rightarrow> string \<Rightarrow> nat \<Rightarrow> bool \<Rightarrow> bool \<Rightarrow> rtype" where
  "desc sh nm sz err mar =
     \<lparr>shape = sh, StringOf = nm, Size = sz, ImplementsError = err,
      ImplementsMarshaler = mar\<rparr>"

definition exampleFields :: "StructField list" where
  "exampleFields =
     [\<lparr>Name = ''Name'', Type = 2, Tag = [], Offset = 0\<rparr>,
      \<lparr>Name = ''age'', Type = 3, Tag = [], Offset = 16\<rparr>,
      \<lparr>Name = ''Age'', Type = 3, Tag = [(''json'', ''-'')], Offset = 24\<rparr>,
      \<lparr>Name = ''Nick'', Type = 4, Tag = [(''json'', ''nick,omitempty'')], Offset = 32\<rparr>,
      \<lparr>Name = ''Ch'', Type = 7, Tag = [(''json'', '',omitempty'')], Offset = 40\<rparr>]"

definition exampleTypes :: universe where
  "exampleTypes t =
     (if t = 0 then desc (TSlice 1) ''[]uint8'' 24 False False
      else if t = 1 then desc TUint8 ''uint8'' 1 False False
      else if t = 2 then desc TString ''string'' 16 False False
      else if t = 3 then desc TInt ''int'' 8 False False
      else if t = 4 then desc (TPtr 3) ''*int'' 8 False False
      else if t = 5 then desc (TStruct exampleFields) ''main.T'' 48 False False
      else if t = 6 then desc (TMap 2 4) ''map[string]*int'' 8 False False
      else if t = 7 then desc (TChan 3) ''chan int'' 8 False False
      else if t = 8 then
        desc (TStruct [\<lparr>Name = ''Next'', Type = 9, Tag = [], Offset = 0\<rparr>])
          ''main.Node'' 8 False False
      else if t = 9 then desc (TPtr 8) ''*main.Node'' 8 False False
      else if t = 10 then desc TFunc ''func()'' 8 False False
      else if t = 11 then desc (TSlice 1) ''json.RawMessage'' 24 False True
      else if t = 12 then desc (TSlice 1) ''main.MyBytes'' 24 False False
      else if t = 13 then desc TFunc ''main.F'' 8 False True
      else if t = 14 then desc (TStruct []) ''main.E'' 0 True True
      else if t = 15 then desc (TPtr 14) ''*main.E'' 8 True True
      else if t = 16 then desc TUnsafePointer ''unsafe.Pointer'' 8 False False
      else if t = 17 then
        desc (TStruct [\<lparr>Name = ''P'', Type = 4, Tag = [], Offset = 0\<rparr>])
          ''main.Box'' 8 False False
      else if t = 18 then desc (TArray 4 1) ''[1]*int'' 8 False False
      else if t = 19 then desc (TStruct []) ''main.Err'' 0 True False
      else if t = 20 then desc (TPtr 21) ''*main.M'' 8 False True
      else if t = 21 then desc (TStruct []) ''main.M'' 0 False False
      else if t = 22 then desc (TPtr 19) ''*main.Err'' 8 True False
      else desc TBool ''bool'' 1 False False)"

definition emptyRegistry :: registry where
  "emptyRegistry = \<lparr>encoderCache = Map.empty, mapKeyEncoderCache = Map.empty\<rparr>"

text \<open>An implementation of the other \<^verbatim>\<open>Encode\<close> methods that appends nothing.\<close>

definition noOthers :: "Encoder \<Rightarrow> string \<Rightarrow> ptr \<Rightarrow> string" where
  "noOthers e space p = space"

section \<open>Types without cycles\<close>

text \<open>
  The types that \<^verbatim>\<open>encoderOf\<close> builds an encoder of while it builds the encoder of
  \<open>t\<close>. A set of types is ranked when it holds these for each of its types, with a
  rank below the rank of the type: then no type of the set contains itself.
  \<open>namesOkOn\<close>: no struct field in the set has the empty name (Go has no such
  field).
\<close>

definition children :: "universe \<Rightarrow> tid \<Rightarrow> tid list" where
  "children U t =
     (case shape (U t) of
        TPtr e \<Rightarrow> [e]
      | TSlice e \<Rightarrow> [e]
      | TArray e n \<Rightarrow> [e]
      | TMap k e \<Rightarrow> [k, e]
      | TStruct fs \<Rightarrow> map Type fs
      | _ \<Rightarrow> [])"

definition rankedOn :: "universe \<Rightarrow> (tid \<Rightarrow> nat) \<Rightarrow> tid set \<Rightarrow> bool" where
  "rankedOn U rk S = (\<forall>t\<in>S. \<forall>c\<in>set (children U t). c \<in> S \<and> rk c < rk t)"

definition namesOkOn :: "universe \<Rightarrow> tid set \<Rightarrow> bool" where
  "namesOkOn U S =
     (\<forall>t\<in>S. case shape (U t) of TStruct fs \<Rightarrow> (\<forall>f\<in>set fs. Name f \<noteq> []) | _ \<Rightarrow> True)"



text \<open>
  A struct \<^verbatim>\<open>main.Accents\<close> (23) with two \<^verbatim>\<open>int\<close> fields whose names do not begin with
  an ASCII character. The first name is e-acute, t, e-acute: it begins with U+00E9,
  LATIN SMALL LETTER E WITH ACUTE (bytes C3 A9), and the field is not exported. The
  second is B-dot-above, a, r: it begins with U+1E02, LATIN CAPITAL LETTER B WITH DOT
  ABOVE (bytes E1 B8 82), and the field is exported.
\<close>

definition eteName :: string where
  "eteName = [CHR 0xC3, CHR 0xA9, CHR ''t'', CHR 0xC3, CHR 0xA9]"

definition bdotName :: string where
  "bdotName = [CHR 0xE1, CHR 0xB8, CHR 0x82, CHR ''a'', CHR ''r'']"

definition accentFields :: "StructField list" where
  "accentFields =
     [\<lparr>Name = eteName, Type = 3, Tag = [], Offset = 0\<rparr>,
      \<lparr>Name = bdotName, Type = 3, Tag = [], Offset = 8\<rparr>]"

definition accentTypes :: universe where
  "accentTypes t =
     (if t = 23 then desc (TStruct accentFields) ''main.Accents'' 16 False False
      else exampleTypes t)"

text \<open>
  A memory for the examples: at address 64 the header of a slice of the three bytes
  1, 20 and 255, which lie from address 100 on.
\<close>

definition exampleHeap :: heap where
  "exampleHeap =
     \<lparr>sliceAt = (\<lambda>p. if p = 64 then (100, 3) else (0, 0)),
      byteAt = (\<lambda>p. if p = 100 then 1 else if p = 101 then 20 else if p = 102 then 255 else 0)\<rparr>"

section \<open>Evaluation\<close>

lemmas builder_defs =
  encoderOf_switch_def encoderOfStruct_def encoderOfMap_def encoderOfMapKey_def
  encoderOfMapKey_inner_def andThen_def Kind_def bytesType_def isOnePtr_def
  unsupportedMsg_def

lemmas example_defs = exampleTypes_def desc_def

declare decimal.simps [simp del]

section \<open>The builder: helper facts\<close>

lemma Split_hd: "\<exists>ps. Split s sep = takeWhile (\<lambda>c. c \<noteq> sep) s # ps"
  by (induction s) auto

lemma getFieldName_char:
  "getFieldName f = (if Name f = [] then Inl IndexOutOfRange
                     else Inr (if kept f then jsonKey f else []))"
proof (cases "Name f")
  case Nil
  then show ?thesis by (simp add: getFieldName_def)
next
  case (Cons c cs)
  obtain ps where ps: "Split (TagGet (Tag f) ''json'') (CHR '','') = firstSegment (jsonTagOf f) # ps"
    using Split_hd[of "TagGet (Tag f) ''json''" "CHR '',''"] by (auto simp: firstSegment_def jsonTagOf_def)
  have e: "jsonTagOf f = [] \<Longrightarrow> firstSegment (jsonTagOf f) = []"
    by (simp add: firstSegment_def)
  show ?thesis using Cons ps e
    by (auto simp: getFieldName_def kept_def jsonKey_def firstByteUpper_def Let_def jsonTagOf_def)
qed

text \<open>
  On a name whose first byte is ASCII the first byte is the first character: the test
  of the code and the words of the spec agree, and both say A to Z.
\<close>

lemma beginsUpper_ascii:
  "asciiInitial name \<Longrightarrow> beginsUpper upper name \<longleftrightarrow> firstByteUpper name"
  by (cases name)
     (auto simp: asciiInitial_def beginsUpper_def firstByteUpper_def firstRune_def
        IsUpperRune_def IsUpper_def Let_def)

lemma firstByteUpper_ascii:
  "(of_char c :: nat) < 128 \<Longrightarrow>
   firstByteUpper (c # cs) \<longleftrightarrow> 65 \<le> (of_char c :: nat) \<and> (of_char c :: nat) \<le> 90"
  by (auto simp: firstByteUpper_def IsUpper_def Let_def)

lemma retained_ascii:
  "\<forall>f\<in>set fs. asciiInitial (Name f) \<Longrightarrow> filter (retained upper) fs = filter kept fs"
  by (rule filter_cong) (auto simp: retained_def kept_def beginsUpper_ascii)

lemma jsonKey_nonempty: "Name f \<noteq> [] \<Longrightarrow> jsonKey f \<noteq> []"
  by (simp add: jsonKey_def)

lemma loop_plan:
  "encoderOfStruct_loop enc fs acc kc = Inr (flds, kc') \<Longrightarrow>
   map (\<lambda>x. (fieldOffset x, fieldPrefix x)) flds
     = map (\<lambda>x. (fieldOffset x, fieldPrefix x)) acc @ plan (length acc) (filter kept fs)"
proof (induction fs arbitrary: acc kc)
  case Nil
  then show ?case by (simp add: plan_def)
next
  case (Cons f fs)
  show ?case
  proof (cases "Name f = []")
    case True
    with Cons.prems show ?thesis by (simp add: getFieldName_char)
  next
    case ne: False
    show ?thesis
    proof (cases "kept f")
      case False
      with Cons ne show ?thesis by (simp add: getFieldName_char)
    next
      case True
      let ?p = "(if length acc \<noteq> 0 then '','' else []) @ ''\"'' @ jsonKey f @ ''\":''"
      from Cons.prems ne True obtain e kc1 where
        r: "encoderOfStruct_loop enc fs (acc @ [StructEncoderField (Offset f) ?p e]) kc1 = Inr (flds, kc')"
        by (auto simp: getFieldName_char jsonKey_nonempty andThen_def Let_def split: sum.splits)
      from Cons.IH[OF r] True show ?thesis
        by (simp add: plan_def keyPrefix_def)
    qed
  qed
qed

lemma loop_returns:
  "\<forall>f\<in>set fs. Name f \<noteq> [] \<Longrightarrow>
   \<forall>f\<in>set fs. kept f \<longrightarrow> (\<forall>p k. \<exists>r. enc p (Type f) k = Inr r) \<Longrightarrow>
   \<exists>r. encoderOfStruct_loop enc fs acc kc = Inr r"
proof (induction fs arbitrary: acc kc)
  case Nil
  then show ?case by simp
next
  case (Cons f fs)
  show ?case
  proof (cases "kept f")
    case False
    with Cons show ?thesis by (simp add: getFieldName_char)
  next
    case True
    let ?p = "(if length acc \<noteq> 0 then '','' else []) @ ''\"'' @ jsonKey f @ ''\":''"
    from Cons.prems True obtain e kc1 where e: "enc (?p @ '' .'' @ jsonKey f) (Type f) kc = Inr (e, kc1)"
      by (metis list.set_intros(1) surj_pair)
    from Cons.IH[of "acc @ [StructEncoderField (Offset f) ?p e]" kc1] Cons.prems
    obtain r where "encoderOfStruct_loop enc fs (acc @ [StructEncoderField (Offset f) ?p e]) kc1 = Inr r"
      by auto
    with e True Cons.prems show ?thesis
      by (simp add: getFieldName_char jsonKey_nonempty andThen_def Let_def)
  qed
qed

lemma andThen_Inr_iff:
  "andThen r f = Inr y \<longleftrightarrow> (\<exists>x kc. r = Inr (x, kc) \<and> f x kc = Inr y)"
  by (auto simp: andThen_def split: sum.splits)

lemma switch_not_bytes:
  "encoderOf_switch enc U p valType kc \<noteq> Inr (BytesEncoder, kc')"
  by (cases "shape (U valType)")
     (auto simp: encoderOf_switch_def encoderOfStruct_def encoderOfMap_def andThen_Inr_iff Let_def)

lemma encoderOfMap_returns:
  assumes "shape (U t) = TMap k e"
    and "\<forall>p kc. \<exists>r. enc p k kc = Inr r" and "\<forall>p kc. \<exists>r. enc p e kc = Inr r"
  shows "\<exists>r. encoderOfMap enc U p t kc = Inr r"
proof -
  from assms(2) obtain x kx where 0: "enc (p @ '' [mapKey]'') k kc = Inr (x, kx)"
    by (metis surj_pair)
  have "\<exists>r. encoderOfMapKey enc U p k kc = Inr r"
    using 0 by (cases "kc k") (auto simp: encoderOfMapKey_def encoderOfMapKey_inner_def andThen_def)
  then obtain ke kc1 where 1: "encoderOfMapKey enc U p k kc = Inr (ke, kc1)"
    by (metis surj_pair)
  from assms(3) obtain x kx where 2: "enc (p @ '' [mapElem]'') e kc1 = Inr (x, kx)"
    by (metis surj_pair)
  from 1 2 assms(1) show ?thesis
    by (simp add: encoderOfMap_def andThen_def Let_def)
qed

lemma encoderOf_returns:
  "rankedOn U rk S \<Longrightarrow> namesOkOn U S \<Longrightarrow> t \<in> S \<Longrightarrow> rk t < n \<Longrightarrow>
   \<exists>r. encoderOf n U p t kc = Inr r"
proof (induction n arbitrary: t p kc)
  case 0
  then show ?case by simp
next
  case (Suc n)
  have ih: "\<exists>r. encoderOf n U p' c kc' = Inr r" if "c \<in> set (children U t)" for c p' kc'
  proof -
    from Suc.prems(1,3) that have c: "c \<in> S \<and> rk c < rk t" by (auto simp: rankedOn_def)
    with Suc.prems(4) have "rk c < n" by simp
    with c Suc.IH[OF Suc.prems(1,2)] show ?thesis by blast
  qed
  have sw: "\<exists>r. encoderOf_switch (encoderOf n U) U p t kc = Inr r"
  proof (cases "shape (U t)")
    case (TPtr e)
    with ih[of e "p @ '' [ptrElem]''" kc] show ?thesis
      by (auto simp: encoderOf_switch_def children_def andThen_def)
  next
    case (TSlice e)
    with ih[of e "p @ '' [sliceElem]''" kc] show ?thesis
      by (auto simp: encoderOf_switch_def children_def andThen_def)
  next
    case (TArray e l)
    with ih[of e "p @ '' [sliceElem]''" kc] show ?thesis
      by (auto simp: encoderOf_switch_def children_def andThen_def)
  next
    case (TMap k e)
    have "\<exists>r. encoderOfMap (encoderOf n U) U p t kc = Inr r"
      using TMap ih by (intro encoderOfMap_returns[of U t k e]) (auto simp: children_def)
    with TMap show ?thesis by (simp add: encoderOf_switch_def)
  next
    case (TStruct fs)
    have names: "\<forall>f\<in>set fs. Name f \<noteq> []"
      using Suc.prems(2,3) TStruct by (auto simp: namesOkOn_def dest: bspec[of _ _ t])
    have "\<exists>r. encoderOfStruct_loop (encoderOf n U) fs [] kc = Inr r"
      using TStruct ih names by (intro loop_returns) (auto simp: children_def)
    with TStruct show ?thesis
      by (auto simp: encoderOf_switch_def encoderOfStruct_def andThen_def)
  qed (simp_all add: encoderOf_switch_def)
  then show ?case by auto
qed

text \<open>
  On the list node, a struct that holds a pointer to itself, no amount of fuel is
  enough: the Go recursion does not end.
\<close>

lemma encoderOf_Node_diverges:
  "encoderOf n exampleTypes p 8 kc = Inl OutOfFuel \<and> encoderOf n exampleTypes p 9 kc = Inl OutOfFuel"
proof (induction n arbitrary: p kc)
  case 0
  then show ?case by simp
next
  case (Suc n)
  have f: "getFieldName \<lparr>Name = ''Next'', Type = 9, Tag = [], Offset = 0\<rparr> = Inr ''Next''"
    by (simp add: getFieldName_def IsUpper_def TagGet_def)
  show ?case using Suc.IH
    by (simp add: example_defs builder_defs f)
qed




text \<open>And on the list node it does not, whatever the fuel.\<close>

lemma EncoderOf_Node_diverges: "EncoderOf n exampleTypes 8 emptyRegistry = Inl OutOfFuel"
  by (simp add: EncoderOf_def emptyRegistry_def encoderOf_Node_diverges)

text \<open>The spec's slice of bytes: the text that is appended.\<close>

lemma commaJoin_snoc:
  "commaJoin (xs @ [x]) = (if xs = [] then x else commaJoin xs @ '','' @ x)"
  by (induction xs rule: commaJoin.induct) auto

lemma slice_fold:
  "foldl (\<lambda>buf i. (if i = 0 then buf else buf @ '','') @ d i) (space @ ''['') [0..<n]
   = space @ ''['' @ commaJoin (map d [0..<n])"
proof (induction n)
  case 0
  then show ?case by simp
next
  case (Suc n)
  then show ?case by (auto simp: commaJoin_snoc)
qed

lemma encodeSpec_slice_uint8:
  "sliceAt h p = (data, len) \<Longrightarrow>
   Encode (encodeSpec h rest) (SliceEncoder Uint8Encoder sz) space p
     = space @ ''['' @
       commaJoin (map (\<lambda>i. decimal (unat (byteAt h (data + i * sz)))) [0..<len]) @ '']''"
  by (simp add: Encode_def slice_fold)

lemma not_own_wrapper: "e \<noteq> OnePtrInterfaceEncoder e"
  using arg_cong[of e "OnePtrInterfaceEncoder e" size] by auto




section \<open>Struct fields (C1)\<close>

text \<open>
  What the code does, for every struct type with the fields \<open>fs\<close>: whenever
  \<^verbatim>\<open>encoderOfStruct\<close> returns, it returns a struct encoder whose field list has one
  entry for each field of \<open>fs\<close> that the code keeps and no other, in the order of
  declaration. The code keeps a field when the first byte of its name, read as a code
  point, is an upper-case letter and the first comma-separated segment of its
  \<open>json\<close> tag is not \<open>-\<close>. The entry number \<open>i\<close> has the offset of the kept field
  number \<open>i\<close> and the key prefix made of a comma when \<open>i\<close> is not 0, the quoted key
  and a colon, the key being the first segment of the tag when that is not empty and
  the field name otherwise. And \<^verbatim>\<open>encoderOfStruct\<close> does return: for every recursive
  builder, when no field name is empty and the encoder of every kept field's type can
  be built; for \<^verbatim>\<open>encoderOf\<close> itself, on a struct type in a ranked set, with fuel from
  the rank of the struct type on.
\<close>

lemma encoderOfStruct_fields_first_byte:
  assumes "shape (U valType) = TStruct fs"
  shows "(\<forall>e kc'. encoderOfStruct enc U p valType kc = Inr (e, kc') \<longrightarrow>
            (\<exists>flds. e = StructEncoder flds \<and> length flds = length (filter kept fs) \<and>
              (\<forall>i < length flds.
                  fieldOffset (flds ! i) = Offset (filter kept fs ! i) \<and>
                  fieldPrefix (flds ! i) = keyPrefix i (jsonKey (filter kept fs ! i)))))
       \<and> ((\<forall>f\<in>set fs. Name f \<noteq> []) \<and>
          (\<forall>f\<in>set fs. kept f \<longrightarrow> (\<forall>p' k. \<exists>r. enc p' (Type f) k = Inr r))
            \<longrightarrow> (\<exists>e kc'. encoderOfStruct enc U p valType kc = Inr (e, kc')))
       \<and> (rankedOn U rk S \<and> namesOkOn U S \<and> valType \<in> S \<and> rk valType \<le> n
            \<longrightarrow> (\<exists>e kc'. encoderOfStruct (encoderOf n U) U p valType kc = Inr (e, kc')))"
proof (intro conjI allI impI)
  fix e kc'
  assume r: "encoderOfStruct enc U p valType kc = Inr (e, kc')"
  then obtain flds where l: "encoderOfStruct_loop enc fs [] kc = Inr (flds, kc')"
    and e: "e = StructEncoder flds"
    using assms by (auto simp: encoderOfStruct_def andThen_def split: sum.splits)
  have m: "map (\<lambda>x. (fieldOffset x, fieldPrefix x)) flds = plan 0 (filter kept fs)"
    using loop_plan[OF l] by simp
  have len: "length flds = length (filter kept fs)"
    using arg_cong[OF m, of length] by (simp add: plan_def)
  have "fieldOffset (flds ! i) = Offset (filter kept fs ! i) \<and>
        fieldPrefix (flds ! i) = keyPrefix i (jsonKey (filter kept fs ! i))"
    if "i < length flds" for i
  proof -
    have "map (\<lambda>x. (fieldOffset x, fieldPrefix x)) flds ! i = plan 0 (filter kept fs) ! i"
      by (simp add: m)
    with that len show ?thesis by (simp add: plan_def nth_enumerate_eq)
  qed
  with e len show "\<exists>flds. e = StructEncoder flds \<and> length flds = length (filter kept fs) \<and>
              (\<forall>i < length flds.
                  fieldOffset (flds ! i) = Offset (filter kept fs ! i) \<and>
                  fieldPrefix (flds ! i) = keyPrefix i (jsonKey (filter kept fs ! i)))"
    by blast
next
  assume "(\<forall>f\<in>set fs. Name f \<noteq> []) \<and>
          (\<forall>f\<in>set fs. kept f \<longrightarrow> (\<forall>p' k. \<exists>r. enc p' (Type f) k = Inr r))"
  then obtain r where "encoderOfStruct_loop enc fs [] kc = Inr r"
    using loop_returns[of fs enc "[]" kc] by blast
  then show "\<exists>e kc'. encoderOfStruct enc U p valType kc = Inr (e, kc')"
    using assms by (cases r) (simp add: encoderOfStruct_def andThen_def)
next
  assume h: "rankedOn U rk S \<and> namesOkOn U S \<and> valType \<in> S \<and> rk valType \<le> n"
  have names: "\<forall>f\<in>set fs. Name f \<noteq> []"
    using h assms by (auto simp: namesOkOn_def dest: bspec[of _ _ valType])
  have "\<exists>r. encoderOf n U p' (Type f) k = Inr r" if "f \<in> set fs" for f p' k
  proof -
    from that assms have "Type f \<in> set (children U valType)" by (simp add: children_def)
    with h have c: "Type f \<in> S \<and> rk (Type f) < rk valType" by (auto simp: rankedOn_def)
    with h have "rk (Type f) < n" by simp
    with h c show ?thesis by (intro encoderOf_returns[of U rk S]) auto
  qed
  with names obtain r where "encoderOfStruct_loop (encoderOf n U) fs [] kc = Inr r"
    using loop_returns[of fs "encoderOf n U" "[]" kc] by blast
  then show "\<exists>e kc'. encoderOfStruct (encoderOf n U) U p valType kc = Inr (e, kc')"
    using assms by (cases r) (simp add: encoderOfStruct_def andThen_def)
qed

text \<open>
  On a struct type whose field names all begin with an ASCII character the fields that
  the code keeps are the fields that the spec retains, those whose name begins with
  an upper-case letter: there the field list is what C1 says.
\<close>

lemma encoderOfStruct_fields_ascii:
  assumes "shape (U valType) = TStruct fs"
    and "\<forall>f\<in>set fs. asciiInitial (Name f)"
    and "encoderOfStruct enc U p valType kc = Inr (e, kc')"
  shows "\<exists>flds. e = StructEncoder flds \<and> length flds = length (filter (retained upper) fs) \<and>
           (\<forall>i < length flds.
              fieldOffset (flds ! i) = Offset (filter (retained upper) fs ! i) \<and>
              fieldPrefix (flds ! i) = keyPrefix i (jsonKey (filter (retained upper) fs ! i)))"
  using encoderOfStruct_fields_first_byte[of U valType fs enc p kc, OF assms(1), THEN conjunct1]
    assms(3)
  by (simp add: retained_ascii[OF assms(2)])

text \<open>
  The second name of \<^verbatim>\<open>main.Accents\<close> begins with an upper-case letter, U+1E02 being
  one in \<^verbatim>\<open>unicode.Upper\<close>.
\<close>

lemma bdotName_beginsUpper: "upper 7682 \<Longrightarrow> beginsUpper upper bdotName"
  by (simp add: beginsUpper_def firstRune_def bdotName_def cont_def second_def IsUpperRune_def
        Let_def)

text \<open>
  C1 fails on the code. \<^verbatim>\<open>getFieldName\<close> tests \<^verbatim>\<open>rune(field.Name[0])\<close>, the first byte
  of the name, not its first character. In \<^verbatim>\<open>main.Accents\<close> the first field's name
  begins with the lower-case letter U+00E9, so the spec does not retain the field,
  whatever \<^verbatim>\<open>unicode.Upper\<close> holds; its first byte C3 is the upper-case letter U+00C3
  in Latin-1, and the code keeps the field under a key of its own. The second field's
  name begins with U+1E02; its first byte E1 is the lower-case letter U+00E1 in
  Latin-1, and the code drops the field. The struct encoder that is built has the
  first field and not the second.
\<close>

theorem getFieldName_first_byte_slip:
  "shape (accentTypes 23) = TStruct accentFields \<and>
   firstRune eteName = Some 233 \<and> \<not> beginsUpper upper eteName \<and>
   getFieldName \<lparr>Name = eteName, Type = 3, Tag = [], Offset = 0\<rparr> = Inr eteName \<and>
   firstRune bdotName = Some 7682 \<and>
   getFieldName \<lparr>Name = bdotName, Type = 3, Tag = [], Offset = 8\<rparr> = Inr [] \<and>
   encoderOfStruct (encoderOf 1 accentTypes) accentTypes [] 23 Map.empty
     = Inr (StructEncoder [StructEncoderField 0 (''\"'' @ eteName @ ''\":'') Int64Encoder],
            Map.empty)"
proof -
  have 1: "firstRune eteName = Some 233"
    by (simp add: firstRune_def eteName_def cont_def second_def Let_def)
  have 2: "\<not> beginsUpper upper eteName"
    by (simp add: beginsUpper_def 1 IsUpperRune_def)
  have 3: "getFieldName \<lparr>Name = eteName, Type = 3, Tag = [], Offset = 0\<rparr> = Inr eteName"
    by (simp add: getFieldName_def eteName_def IsUpper_def TagGet_def)
  have 4: "firstRune bdotName = Some 7682"
    by (simp add: firstRune_def bdotName_def cont_def second_def Let_def)
  have 5: "getFieldName \<lparr>Name = bdotName, Type = 3, Tag = [], Offset = 8\<rparr> = Inr []"
    by (simp add: getFieldName_def bdotName_def IsUpper_def TagGet_def)
  have 6: "shape (accentTypes 23) = TStruct accentFields"
    by (simp add: accentTypes_def desc_def)
  have 7: "eteName \<noteq> []" by (simp add: eteName_def)
  have 8: "encoderOf 1 accentTypes q 3 kc = Inr (Int64Encoder, kc)" for q kc
    by (simp add: accentTypes_def example_defs builder_defs)
  have 9: "encoderOfStruct (encoderOf 1 accentTypes) accentTypes [] 23 Map.empty
     = Inr (StructEncoder [StructEncoderField 0 (''\"'' @ eteName @ ''\":'') Int64Encoder],
            Map.empty)"
    by (simp add: encoderOfStruct_def 6 accentFields_def 3 5 7 8 andThen_def
          del: encoderOf.simps One_nat_def)
  from 1 2 3 4 5 6 9 show ?thesis by blast
qed


section \<open>The order of the classification (C2)\<close>

text \<open>
  C2, as amended. \<^verbatim>\<open>encoderOf\<close> takes the first rule that matches, in this order: the
  type \<^verbatim>\<open>[]byte\<close> itself gets the byte-sequence encoder; a type of kind Ptr that
  implements \<^verbatim>\<open>error\<close> gets a pointer encoder around an error encoder; a type not of
  kind Ptr that implements \<^verbatim>\<open>json.Marshaler\<close> gets the marshaler encoder; every
  other type is dispatched on its kind. A type not of kind Ptr that implements
  \<^verbatim>\<open>error\<close> is dispatched on its kind when it does not implement
  \<^verbatim>\<open>json.Marshaler\<close>, and a type of kind Ptr that implements \<^verbatim>\<open>json.Marshaler\<close> is
  when it does not implement \<^verbatim>\<open>error\<close>.
\<close>

theorem encoderOf_first_match:
  "(valType = bytesType \<longrightarrow> encoderOf (Suc n) U p valType kc = Inr (BytesEncoder, kc)) \<and>
   (valType \<noteq> bytesType \<and> ImplementsError (U valType) \<and> Kind U valType = KPtr \<longrightarrow>
      encoderOf (Suc n) U p valType kc = Inr (PointerEncoder (ErrorEncoder valType), kc)) \<and>
   (valType \<noteq> bytesType \<and> ImplementsMarshaler (U valType) \<and> Kind U valType \<noteq> KPtr \<longrightarrow>
      encoderOf (Suc n) U p valType kc = Inr (JsonMarshalerEncoder valType, kc)) \<and>
   (valType \<noteq> bytesType \<and> \<not> (ImplementsError (U valType) \<and> Kind U valType = KPtr) \<and>
    \<not> (ImplementsMarshaler (U valType) \<and> Kind U valType \<noteq> KPtr) \<longrightarrow>
      encoderOf (Suc n) U p valType kc = encoderOf_switch (encoderOf n U) U p valType kc) \<and>
   (valType \<noteq> bytesType \<and> Kind U valType \<noteq> KPtr \<and> ImplementsError (U valType) \<and>
    \<not> ImplementsMarshaler (U valType) \<longrightarrow>
      encoderOf (Suc n) U p valType kc = encoderOf_switch (encoderOf n U) U p valType kc) \<and>
   (valType \<noteq> bytesType \<and> Kind U valType = KPtr \<and> ImplementsMarshaler (U valType) \<and>
    \<not> ImplementsError (U valType) \<longrightarrow>
      encoderOf (Suc n) U p valType kc = encoderOf_switch (encoderOf n U) U p valType kc)"
  by auto

theorem encoderOf_first_match_witness:
  "encoderOf (Suc 1) exampleTypes [] 0 Map.empty = Inr (BytesEncoder, Map.empty) \<and>
   encoderOf (Suc 1) exampleTypes [] 22 Map.empty
     = Inr (PointerEncoder (ErrorEncoder 22), Map.empty) \<and>
   encoderOf (Suc 1) exampleTypes [] 11 Map.empty = Inr (JsonMarshalerEncoder 11, Map.empty) \<and>
   encoderOf (Suc 1) exampleTypes [] 2 Map.empty = Inr (StringEncoder, Map.empty) \<and>
   encoderOf (Suc 1) exampleTypes [] 19 Map.empty = Inr (StructEncoder [], Map.empty) \<and>
   encoderOf (Suc 1) exampleTypes [] 20 Map.empty
     = Inr (PointerEncoder (StructEncoder []), Map.empty)"
proof -
  note t = encoderOf_first_match[where U = exampleTypes and n = 1 and p = "[]" and kc = Map.empty]
  have i: "encoderOf 1 exampleTypes p 21 kc = Inr (StructEncoder [], kc)" for p kc
    by (simp add: example_defs builder_defs)
  have "encoderOf (Suc 1) exampleTypes [] 0 Map.empty = Inr (BytesEncoder, Map.empty)"
    using t[of 0] by (simp del: encoderOf.simps add: bytesType_def)
  moreover have "encoderOf (Suc 1) exampleTypes [] 22 Map.empty
                   = Inr (PointerEncoder (ErrorEncoder 22), Map.empty)"
    using t[of 22] by (simp del: encoderOf.simps add: example_defs builder_defs)
  moreover have "encoderOf (Suc 1) exampleTypes [] 11 Map.empty
                   = Inr (JsonMarshalerEncoder 11, Map.empty)"
    using t[of 11] by (simp del: encoderOf.simps add: example_defs builder_defs)
  moreover have "encoderOf (Suc 1) exampleTypes [] 2 Map.empty = Inr (StringEncoder, Map.empty)"
    using t[of 2] by (simp del: encoderOf.simps add: example_defs builder_defs)
  moreover have "encoderOf (Suc 1) exampleTypes [] 19 Map.empty
                   = Inr (StructEncoder [], Map.empty)"
    using t[of 19] by (simp del: encoderOf.simps add: example_defs builder_defs)
  moreover have "encoderOf (Suc 1) exampleTypes [] 20 Map.empty
                   = Inr (PointerEncoder (StructEncoder []), Map.empty)"
    using t[of 20] i by (simp del: encoderOf.simps add: example_defs builder_defs)
  ultimately show ?thesis by blast
qed

text \<open>
  The claim as it was stated fails on a type that implements both interfaces.
  \<^verbatim>\<open>main.E\<close> is a struct, not a pointer, and implements \<^verbatim>\<open>error\<close>: it gets the
  marshaler encoder, not the struct encoder of the dispatch on its kind. \<^verbatim>\<open>*main.E\<close>
  is a pointer and implements \<^verbatim>\<open>json.Marshaler\<close>: it gets the error encoder, not the
  pointer encoder of the dispatch on its kind.
\<close>

theorem both_interfaces_counterexample:
  "Kind exampleTypes 14 \<noteq> KPtr \<and> ImplementsError (exampleTypes 14) \<and>
   encoderOf (Suc 1) exampleTypes [] 14 Map.empty = Inr (JsonMarshalerEncoder 14, Map.empty) \<and>
   encoderOf_switch (encoderOf 1 exampleTypes) exampleTypes [] 14 Map.empty
     = Inr (StructEncoder [], Map.empty) \<and>
   Kind exampleTypes 15 = KPtr \<and> ImplementsMarshaler (exampleTypes 15) \<and>
   encoderOf (Suc 1) exampleTypes [] 15 Map.empty = Inr (PointerEncoder (ErrorEncoder 15), Map.empty) \<and>
   encoderOf_switch (encoderOf 1 exampleTypes) exampleTypes [] 15 Map.empty
     = Inr (PointerEncoder (JsonMarshalerEncoder 14), Map.empty)"
  by (simp add: example_defs builder_defs)

section \<open>Unsupported kinds (C5)\<close>

text \<open>
  C5, as amended. For a type of kind Func, Chan or UnsafePointer that does not implement
  \<^verbatim>\<open>json.Marshaler\<close>, \<^verbatim>\<open>encoderOf\<close> returns (it does not panic, and one unit of fuel
  is enough) the unsupported encoder, and that encoder appends to every buffer, for
  every value handle, exactly the text \<open>"can not encode T P to json"\<close>, quotes
  included, where \<open>T\<close> is the name of the type and \<open>P\<close> the prefix that
  \<^verbatim>\<open>encoderOf\<close> was called with. (The descriptor of \<^verbatim>\<open>[]byte\<close> is of kind Slice.)
\<close>

theorem unsupported_kinds:
  assumes "Kind U bytesType = KSlice"
    and "Kind U valType = KFunc \<or> Kind U valType = KChan \<or> Kind U valType = KUnsafePointer"
    and "\<not> ImplementsMarshaler (U valType)"
  shows "encoderOf (Suc n) U p valType kc
           = Inr (UnsupportedEncoder (unsupportedMsg U p valType), kc) \<and>
         Encode others (UnsupportedEncoder (unsupportedMsg U p valType)) space ptr
           = space @ ''\"can not encode '' @ StringOf (U valType) @ '' '' @ p @ '' to json\"''"
proof -
  have ne: "bytesType \<noteq> valType" using assms(1,2) by auto
  have sw: "encoderOf_switch (encoderOf n U) U p valType kc
              = Inr (UnsupportedEncoder (unsupportedMsg U p valType), kc)"
    using assms(2) by (cases "shape (U valType)") (simp_all add: encoderOf_switch_def Kind_def)
  have "encoderOf (Suc n) U p valType kc
           = Inr (UnsupportedEncoder (unsupportedMsg U p valType), kc)"
    using ne assms(2,3) sw by auto
  moreover have "Encode others (UnsupportedEncoder (unsupportedMsg U p valType)) space ptr
           = space @ ''\"can not encode '' @ StringOf (U valType) @ '' '' @ p @ '' to json\"''"
    by (simp add: Encode_def unsupportedMsg_def)
  ultimately show ?thesis by simp
qed

theorem unsupported_kinds_witness:
  "Kind exampleTypes bytesType = KSlice \<and> Kind exampleTypes 7 = KChan \<and>
   \<not> ImplementsMarshaler (exampleTypes 7) \<and>
   encoderOf (Suc 0) exampleTypes '' .Ch'' 7 Map.empty
     = Inr (UnsupportedEncoder ''\"can not encode chan int  .Ch to json\"'', Map.empty) \<and>
   Encode noOthers (UnsupportedEncoder (unsupportedMsg exampleTypes '' .Ch'' 7)) ''{'' 0
     = ''{\"can not encode chan int  .Ch to json\"''"
proof -
  have a: "Kind exampleTypes bytesType = KSlice" by (simp add: example_defs builder_defs)
  have b: "Kind exampleTypes 7 = KChan" by (simp add: example_defs builder_defs)
  have c: "\<not> ImplementsMarshaler (exampleTypes 7)" by (simp add: example_defs)
  have r: "encoderOf (Suc 0) exampleTypes '' .Ch'' 7 Map.empty
           = Inr (UnsupportedEncoder (unsupportedMsg exampleTypes '' .Ch'' 7), Map.empty) \<and>
         Encode noOthers (UnsupportedEncoder (unsupportedMsg exampleTypes '' .Ch'' 7)) ''{'' 0
           = ''{'' @ ''\"can not encode '' @ StringOf (exampleTypes 7) @ '' '' @ '' .Ch'' @ '' to json\"''"
    by (rule unsupported_kinds[OF a _ c]) (simp add: b)
  have m: "unsupportedMsg exampleTypes '' .Ch'' 7 = ''\"can not encode chan int  .Ch to json\"''"
    by (simp add: example_defs unsupportedMsg_def)
  have s: "StringOf (exampleTypes 7) = ''chan int''"
    by (simp add: example_defs)
  from r a b c show ?thesis
    by (simp del: encoderOf.simps add: m s)
qed

text \<open>
  The claim as it was stated fails on a type of kind Func that has a \<^verbatim>\<open>MarshalJSON\<close>
  method, \<^verbatim>\<open>main.F\<close>: the third rule comes before the kinds, and the encoder is the
  marshaler encoder.
\<close>

theorem func_with_marshaler_counterexample:
  "Kind exampleTypes 13 = KFunc \<and>
   encoderOf (Suc 0) exampleTypes [] 13 Map.empty = Inr (JsonMarshalerEncoder 13, Map.empty)"
  by (simp add: example_defs builder_defs)

section \<open>The byte-sequence encoder (C9)\<close>

text \<open>
  C9, as amended. \<^verbatim>\<open>encoderOf\<close> returns the byte-sequence encoder for the type
  \<^verbatim>\<open>[]byte\<close> itself and for no other type. A distinct type with the same underlying
  type, a slice of \<^verbatim>\<open>uint8\<close>, that does not implement \<^verbatim>\<open>json.Marshaler\<close> is classified
  by its kind: it gets a slice encoder over the \<^verbatim>\<open>uint8\<close> encoder. So a value of such
  a type is encoded as a JSON array of numbers, not as a string: by the spec's slice
  and unsigned-integer encodings, what is appended to the buffer is \<open>[\<close>, the decimal
  literals of the bytes joined by commas, and \<open>]\<close>.
\<close>

theorem bytesEncoder_exact_type:
  assumes "shape (U bytesType) = TSlice u8" and "shape (U u8) = TUint8"
    and "\<not> ImplementsMarshaler (U u8)"
  shows "((\<exists>kc'. encoderOf (Suc n) U p valType kc = Inr (BytesEncoder, kc'))
            \<longleftrightarrow> valType = bytesType) \<and>
         (valType \<noteq> bytesType \<and> shape (U valType) = shape (U bytesType) \<and>
          \<not> ImplementsMarshaler (U valType) \<longrightarrow>
            encoderOf (Suc (Suc n)) U p valType kc
              = Inr (SliceEncoder Uint8Encoder (Size (U u8)), kc) \<and>
            (\<forall>(h :: heap) rest space v data len. sliceAt h v = (data, len) \<longrightarrow>
               Encode (encodeSpec h rest) (SliceEncoder Uint8Encoder (Size (U u8))) space v
                 = space @ ''['' @
                   commaJoin (map (\<lambda>i. decimal (unat (byteAt h (data + i * Size (U u8)))))
                                [0..<len]) @ '']''))"
proof (intro conjI impI allI)
  show "(\<exists>kc'. encoderOf (Suc n) U p valType kc = Inr (BytesEncoder, kc'))
            \<longleftrightarrow> valType = bytesType"
    by (auto simp: switch_not_bytes)
next
  assume h: "valType \<noteq> bytesType \<and> shape (U valType) = shape (U bytesType) \<and>
          \<not> ImplementsMarshaler (U valType)"
  have u8: "bytesType \<noteq> u8" using assms(1,2) by auto
  have e: "encoderOf (Suc n) U (p @ '' [sliceElem]'') u8 kc = Inr (Uint8Encoder, kc)"
    using u8 assms(2,3) by (simp add: Kind_def encoderOf_switch_def)
  have k: "Kind U valType = KSlice" using h assms(1) by (simp add: Kind_def)
  have "encoderOf (Suc (Suc n)) U p valType kc
          = encoderOf_switch (encoderOf (Suc n) U) U p valType kc"
    using h k by (simp del: encoderOf.simps(2) add: encoderOf.simps(2)[of "Suc n"])
  also have "\<dots> = Inr (SliceEncoder Uint8Encoder (Size (U u8)), kc)"
    using h assms(1) e by (simp del: encoderOf.simps add: encoderOf_switch_def andThen_def)
  finally show "encoderOf (Suc (Suc n)) U p valType kc
              = Inr (SliceEncoder Uint8Encoder (Size (U u8)), kc)" .
next
  fix h :: heap and rest space v data len
  assume "sliceAt h v = (data, len)"
  then show "Encode (encodeSpec h rest) (SliceEncoder Uint8Encoder (Size (U u8))) space v
                 = space @ ''['' @
                   commaJoin (map (\<lambda>i. decimal (unat (byteAt h (data + i * Size (U u8)))))
                                [0..<len]) @ '']''"
    by (rule encodeSpec_slice_uint8)
qed

text \<open>
  \<^verbatim>\<open>type MyBytes []byte\<close> gets the slice encoder, and its value of the three bytes 1,
  20 and 255 is written \<open>[1,20,255]\<close>.
\<close>

theorem bytesEncoder_exact_type_witness:
  "shape (exampleTypes bytesType) = TSlice 1 \<and> shape (exampleTypes 1) = TUint8 \<and>
   \<not> ImplementsMarshaler (exampleTypes 1) \<and>
   12 \<noteq> bytesType \<and> shape (exampleTypes 12) = shape (exampleTypes bytesType) \<and>
   \<not> ImplementsMarshaler (exampleTypes 12) \<and>
   encoderOf (Suc (Suc 0)) exampleTypes [] 12 Map.empty
     = Inr (SliceEncoder Uint8Encoder 1, Map.empty) \<and>
   sliceAt exampleHeap 64 = (100, 3) \<and>
   Encode (encodeSpec exampleHeap noOthers) (SliceEncoder Uint8Encoder 1) ''v='' 64
     = ''v=[1,20,255]'' \<and>
   (\<exists>kc'. encoderOf (Suc 0) exampleTypes [] bytesType Map.empty = Inr (BytesEncoder, kc'))"
proof -
  have a: "shape (exampleTypes bytesType) = TSlice 1" by (simp add: example_defs bytesType_def)
  have b: "shape (exampleTypes 1) = TUint8" by (simp add: example_defs)
  have c: "\<not> ImplementsMarshaler (exampleTypes 1)" by (simp add: example_defs)
  have d: "12 \<noteq> bytesType \<and> shape (exampleTypes 12) = shape (exampleTypes bytesType) \<and>
   \<not> ImplementsMarshaler (exampleTypes 12)" by (simp add: example_defs bytesType_def)
  have s: "Size (exampleTypes 1) = 1" by (simp add: example_defs)
  have hp: "sliceAt exampleHeap 64 = (100, 3)" by (simp add: exampleHeap_def)
  note t = bytesEncoder_exact_type[OF a b c]
  from t[of 0 "[]" 12 Map.empty] d
  have both: "encoderOf (Suc (Suc 0)) exampleTypes [] 12 Map.empty
           = Inr (SliceEncoder Uint8Encoder (Size (exampleTypes 1)), Map.empty) \<and>
         (\<forall>(h :: heap) rest space v data len. sliceAt h v = (data, len) \<longrightarrow>
            Encode (encodeSpec h rest) (SliceEncoder Uint8Encoder (Size (exampleTypes 1))) space v
              = space @ ''['' @
                commaJoin (map (\<lambda>i. decimal (unat (byteAt h (data + i * Size (exampleTypes 1)))))
                             [0..<len]) @ '']'')"
    by blast
  with s have 1: "encoderOf (Suc (Suc 0)) exampleTypes [] 12 Map.empty
     = Inr (SliceEncoder Uint8Encoder 1, Map.empty)"
    by (simp del: encoderOf.simps)
  from both hp
  have "Encode (encodeSpec exampleHeap noOthers) (SliceEncoder Uint8Encoder (Size (exampleTypes 1)))
          ''v='' 64
        = ''v='' @ ''['' @
          commaJoin (map (\<lambda>i. decimal (unat (byteAt exampleHeap (100 + i * Size (exampleTypes 1)))))
                       [0..<3]) @ '']''"
    by blast
  also have "[0..<3] = [0, 1, 2 :: nat]" by (simp add: upt_rec)
  finally have 2: "Encode (encodeSpec exampleHeap noOthers) (SliceEncoder Uint8Encoder 1) ''v='' 64
     = ''v=[1,20,255]''"
    using s by (simp add: exampleHeap_def decimal.simps digit_def)
  have 3: "\<exists>kc'. encoderOf (Suc 0) exampleTypes [] bytesType Map.empty = Inr (BytesEncoder, kc')"
    using t[of 0 "[]" bytesType Map.empty] by (simp del: encoderOf.simps)
  from a b c d 1 hp 2 3 show ?thesis by blast
qed

text \<open>
  The claim as it was stated fails on \<^verbatim>\<open>json.RawMessage\<close>, a defined type over
  \<^verbatim>\<open>[]byte\<close> with a \<^verbatim>\<open>MarshalJSON\<close> method: it gets the marshaler encoder, not a
  slice encoder.
\<close>

theorem rawMessage_counterexample:
  "11 \<noteq> bytesType \<and> shape (exampleTypes 11) = shape (exampleTypes bytesType) \<and>
   shape (exampleTypes 11) = TSlice 1 \<and> shape (exampleTypes 1) = TUint8 \<and>
   encoderOf (Suc (Suc 0)) exampleTypes [] 11 Map.empty
     = Inr (JsonMarshalerEncoder 11, Map.empty)"
  by (simp add: example_defs builder_defs)

section \<open>The map encoder (C3)\<close>

text \<open>
  C3 fails on the code. \<^verbatim>\<open>encoderOfMap\<close> builds the encoder of the element type and
  wraps it when the element type is one pointer, and then returns a map encoder that
  holds the key encoder and the sample only: the value encoder is not a component of
  what it returns, for any map type.
\<close>

lemma encoderOfMap_elemEncoder_None:
  "encoderOfMap enc U p valType kc = Inr (e, kc') \<Longrightarrow> \<exists>k. e = MapEncoder k None valType"
  by (cases "shape (U valType)") (auto simp: encoderOfMap_def andThen_Inr_iff Let_def)

text \<open>
  C3 at \<^verbatim>\<open>map[string]*int\<close>: the element type \<^verbatim>\<open>*int\<close> is one pointer and its encoder
  is built, and the map encoder that is returned has no value encoder.
\<close>

theorem encoderOfMap_drops_elemEncoder:
  "shape (exampleTypes 6) = TMap 2 4 \<and>
   isOnePtr exampleTypes 4 \<and>
   encoderOf (Suc (Suc 0)) exampleTypes '' [mapElem]'' 4 [2 \<mapsto> MapStringKeyEncoder StringEncoder]
     = Inr (PointerEncoder Int64Encoder, [2 \<mapsto> MapStringKeyEncoder StringEncoder]) \<and>
   encoderOfMap (encoderOf (Suc (Suc 0)) exampleTypes) exampleTypes [] 6 Map.empty
     = Inr (MapEncoder (MapStringKeyEncoder StringEncoder) None 6,
            [2 \<mapsto> MapStringKeyEncoder StringEncoder])"
  by (simp add: example_defs builder_defs)

section \<open>The registry compiles a type once (C4)\<close>



section \<open>One-pointer types (C6)\<close>

text \<open>
  C6. \<^verbatim>\<open>isOnePtr\<close> holds of a type exactly when it is of kind Ptr, or a struct of
  exactly one field whose type is of kind Ptr, or an array of length 1 whose element
  type is of kind Ptr. When \<^verbatim>\<open>EncoderOf\<close> misses the cache and \<^verbatim>\<open>encoderOf\<close> has built
  an encoder, the encoder that is cached and returned is the one-pointer wrapper
  around the built encoder exactly when \<^verbatim>\<open>isOnePtr\<close> holds of the type, and the built
  encoder itself otherwise.
\<close>

theorem isOnePtr_and_wrapper:
  "(isOnePtr U valType \<longleftrightarrow>
      (Kind U valType = KPtr \<or>
       (\<exists>f. shape (U valType) = TStruct [f] \<and> Kind U (Type f) = KPtr) \<or>
       (\<exists>e. shape (U valType) = TArray e 1 \<and> Kind U e = KPtr))) \<and>
   (encoderCache s valType = None \<and>
    encoderOf n U [] valType (mapKeyEncoderCache s) = Inr (built, kc') \<longrightarrow>
      (\<exists>enc s'. EncoderOf n U valType s = Inr (enc, s') \<and>
         encoderCache s' valType = Some enc \<and>
         (enc = OnePtrInterfaceEncoder built \<longleftrightarrow> isOnePtr U valType) \<and>
         (enc = built \<longleftrightarrow> \<not> isOnePtr U valType)))"
proof (intro conjI impI)
  show "isOnePtr U valType \<longleftrightarrow>
      (Kind U valType = KPtr \<or>
       (\<exists>f. shape (U valType) = TStruct [f] \<and> Kind U (Type f) = KPtr) \<or>
       (\<exists>e. shape (U valType) = TArray e 1 \<and> Kind U e = KPtr))"
  proof (cases "shape (U valType)")
    case (TStruct fs)
    then show ?thesis
      by (cases fs) (auto simp: isOnePtr_def Kind_def)
  qed (auto simp: isOnePtr_def Kind_def)
next
  assume "encoderCache s valType = None \<and>
    encoderOf n U [] valType (mapKeyEncoderCache s) = Inr (built, kc')"
  then show "\<exists>enc s'. EncoderOf n U valType s = Inr (enc, s') \<and>
         encoderCache s' valType = Some enc \<and>
         (enc = OnePtrInterfaceEncoder built \<longleftrightarrow> isOnePtr U valType) \<and>
         (enc = built \<longleftrightarrow> \<not> isOnePtr U valType)"
    using not_own_wrapper[of built] by (auto simp: EncoderOf_def Let_def)
qed

theorem isOnePtr_and_wrapper_witness:
  "isOnePtr exampleTypes 4 \<and> isOnePtr exampleTypes 17 \<and> isOnePtr exampleTypes 18 \<and>
   \<not> isOnePtr exampleTypes 3 \<and>
   (\<exists>s'. EncoderOf 3 exampleTypes 17 emptyRegistry
           = Inr (OnePtrInterfaceEncoder
                    (StructEncoder [StructEncoderField 0 ''\"P\":'' (PointerEncoder Int64Encoder)]),
                  s') \<and>
         encoderCache s' 17
           = Some (OnePtrInterfaceEncoder
                    (StructEncoder [StructEncoderField 0 ''\"P\":'' (PointerEncoder Int64Encoder)]))) \<and>
   (\<exists>s'. EncoderOf 1 exampleTypes 3 emptyRegistry = Inr (Int64Encoder, s') \<and>
         encoderCache s' 3 = Some Int64Encoder)"
proof -
  let ?box = "StructEncoder [StructEncoderField 0 ''\"P\":'' (PointerEncoder Int64Encoder)]"
  have k4: "Kind exampleTypes 4 = KPtr" by (simp add: example_defs Kind_def)
  have p4: "isOnePtr exampleTypes 4"
    using isOnePtr_and_wrapper[of exampleTypes 4, THEN conjunct1] k4 by blast
  have "shape (exampleTypes 17) = TStruct [\<lparr>Name = ''P'', Type = 4, Tag = [], Offset = 0\<rparr>] \<and>
        Kind exampleTypes (Type \<lparr>Name = ''P'', Type = 4, Tag = [], Offset = 0\<rparr>) = KPtr"
    by (simp add: example_defs Kind_def)
  then have p17: "isOnePtr exampleTypes 17"
    using isOnePtr_and_wrapper[of exampleTypes 17, THEN conjunct1] by blast
  have "shape (exampleTypes 18) = TArray 4 1 \<and> Kind exampleTypes 4 = KPtr"
    by (simp add: example_defs Kind_def)
  then have p18: "isOnePtr exampleTypes 18"
    using isOnePtr_and_wrapper[of exampleTypes 18, THEN conjunct1] by blast
  have "\<not> (Kind exampleTypes 3 = KPtr \<or>
       (\<exists>f. shape (exampleTypes 3) = TStruct [f] \<and> Kind exampleTypes (Type f) = KPtr) \<or>
       (\<exists>e. shape (exampleTypes 3) = TArray e 1 \<and> Kind exampleTypes e = KPtr))"
    by (simp add: example_defs Kind_def)
  then have p3: "\<not> isOnePtr exampleTypes 3"
    using isOnePtr_and_wrapper[of exampleTypes 3, THEN conjunct1] by blast
  have c: "encoderCache emptyRegistry t = None" for t by (simp add: emptyRegistry_def)
  have f: "getFieldName \<lparr>Name = ''P'', Type = 4, Tag = [], Offset = 0\<rparr> = Inr ''P''"
    by (simp add: getFieldName_def IsUpper_def TagGet_def)
  have b17: "encoderOf 3 exampleTypes [] 17 (mapKeyEncoderCache emptyRegistry) = Inr (?box, Map.empty)"
    by (simp add: numeral_3_eq_3 emptyRegistry_def example_defs builder_defs f)
  have b3: "encoderOf 1 exampleTypes [] 3 (mapKeyEncoderCache emptyRegistry) = Inr (Int64Encoder, Map.empty)"
    by (simp add: emptyRegistry_def example_defs builder_defs)
  from isOnePtr_and_wrapper[of exampleTypes 17 emptyRegistry 3 ?box Map.empty, THEN conjunct2] c b17 p17
  have w17: "\<exists>s'. EncoderOf 3 exampleTypes 17 emptyRegistry = Inr (OnePtrInterfaceEncoder ?box, s') \<and>
         encoderCache s' 17 = Some (OnePtrInterfaceEncoder ?box)"
    by blast
  from isOnePtr_and_wrapper[of exampleTypes 3 emptyRegistry 1 Int64Encoder Map.empty, THEN conjunct2] c b3 p3
  have w3: "\<exists>s'. EncoderOf 1 exampleTypes 3 emptyRegistry = Inr (Int64Encoder, s') \<and>
         encoderCache s' 3 = Some Int64Encoder"
    by blast
  from p4 p17 p18 p3 w17 w3 show ?thesis by blast
qed

section \<open>The formatter (C7, C10)\<close>

text \<open>
  C7, as amended. \<^verbatim>\<open>Format\<close> invokes the encoder that the formatter holds, on the raw
  handle of the value at the formatter's index: it does not look at the runtime type
  of the value (two argument lists with the same data words give the same result) and
  it does not consult the registry. Its result is that of a lookup at format time
  when the registry's encoder of the value's runtime type is the encoder that the
  formatter holds.
\<close>

theorem Format_uses_stored_encoder:
  "(0 \<le> idx f \<and> idx f < int (length kv) \<longrightarrow>
      Format others f space kv
        = Inr (Encode others (encoder f) space (word (kv ! nat (idx f))))) \<and>
   (map word kv = map word kv' \<longrightarrow> Format others f space kv = Format others f space kv') \<and>
   (0 \<le> idx f \<and> idx f < int (length kv) \<and> ityp (kv ! nat (idx f)) = Some t \<and>
    encoderCache s t = Some (encoder f) \<longrightarrow>
      Format_resolving n U others f space kv s
        = Inr (Encode others (encoder f) space (word (kv ! nat (idx f))), s))"
proof (intro conjI impI)
  assume "0 \<le> idx f \<and> idx f < int (length kv)"
  then show "Format others f space kv
        = Inr (Encode others (encoder f) space (word (kv ! nat (idx f))))"
    by (simp add: Format_def PtrOf_def)
next
  assume m: "map word kv = map word kv'"
  then have l: "length kv = length kv'" by (rule map_eq_imp_length_eq)
  have "word (kv ! i) = word (kv' ! i)" if "i < length kv" for i
    using that l nth_map[of i kv word] nth_map[of i kv' word] m by simp
  then show "Format others f space kv = Format others f space kv'"
    using l by (auto simp: Format_def PtrOf_def)
next
  assume "0 \<le> idx f \<and> idx f < int (length kv) \<and> ityp (kv ! nat (idx f)) = Some t \<and>
    encoderCache s t = Some (encoder f)"
  then show "Format_resolving n U others f space kv s
        = Inr (Encode others (encoder f) space (word (kv ! nat (idx f))), s)"
    by (simp add: Format_resolving_def EncoderOf_def PtrOf_def Let_def)
qed

theorem Format_uses_stored_encoder_witness:
  "Format noOthers \<lparr>idx = 1, encoder = UnsupportedEncoder ''\"x\"''\<rparr> ''k=''
     [\<lparr>ityp = Some 3, word = 4096\<rparr>, \<lparr>ityp = Some 7, word = 8192\<rparr>]
     = Inr ''k=\"x\"'' \<and>
   Format noOthers \<lparr>idx = 1, encoder = UnsupportedEncoder ''\"x\"''\<rparr> ''k=''
     [\<lparr>ityp = Some 3, word = 4096\<rparr>, \<lparr>ityp = Some 7, word = 8192\<rparr>]
     = Format noOthers \<lparr>idx = 1, encoder = UnsupportedEncoder ''\"x\"''\<rparr> ''k=''
         [\<lparr>ityp = None, word = 4096\<rparr>, \<lparr>ityp = Some 10, word = 8192\<rparr>] \<and>
   Format_resolving 0 exampleTypes noOthers \<lparr>idx = 1, encoder = UnsupportedEncoder ''\"x\"''\<rparr> ''k=''
     [\<lparr>ityp = Some 3, word = 4096\<rparr>, \<lparr>ityp = Some 7, word = 8192\<rparr>]
     \<lparr>encoderCache = [7 \<mapsto> UnsupportedEncoder ''\"x\"''], mapKeyEncoderCache = Map.empty\<rparr>
     = Inr (''k=\"x\"'',
            \<lparr>encoderCache = [7 \<mapsto> UnsupportedEncoder ''\"x\"''], mapKeyEncoderCache = Map.empty\<rparr>)"
proof -
  let ?f = "\<lparr>idx = 1, encoder = UnsupportedEncoder ''\"x\"''\<rparr>"
  let ?kv = "[\<lparr>ityp = Some 3, word = 4096\<rparr>, \<lparr>ityp = Some 7, word = 8192\<rparr>]"
  let ?kv' = "[\<lparr>ityp = None, word = 4096\<rparr>, \<lparr>ityp = Some 10, word = 8192\<rparr>]"
  let ?s = "\<lparr>encoderCache = [7 \<mapsto> UnsupportedEncoder ''\"x\"''], mapKeyEncoderCache = Map.empty\<rparr>"
  note t = Format_uses_stored_encoder[of ?f ?kv noOthers "''k=''" ?kv' 7 ?s 0 exampleTypes]
  have "Format noOthers ?f ''k='' ?kv
          = Inr (Encode noOthers (encoder ?f) ''k='' (word (?kv ! nat (idx ?f))))"
    by (rule t[THEN conjunct1, THEN mp]) simp
  then have 1: "Format noOthers ?f ''k='' ?kv = Inr ''k=\"x\"''"
    by (simp add: Encode_def)
  have 2: "Format noOthers ?f ''k='' ?kv = Format noOthers ?f ''k='' ?kv'"
    by (rule t[THEN conjunct2, THEN conjunct1, THEN mp]) simp
  have "Format_resolving 0 exampleTypes noOthers ?f ''k='' ?kv ?s
          = Inr (Encode noOthers (encoder ?f) ''k='' (word (?kv ! nat (idx ?f))), ?s)"
    by (rule t[THEN conjunct2, THEN conjunct2, THEN mp]) simp
  then have 3: "Format_resolving 0 exampleTypes noOthers ?f ''k='' ?kv ?s = Inr (''k=\"x\"'', ?s)"
    by (simp add: Encode_def)
  from 1 2 3 show ?thesis by blast
qed

text \<open>
  The claim as it was stated fails on a formatter that holds the encoder of
  \<^verbatim>\<open>chan int\<close> and is given a value of type \<^verbatim>\<open>func()\<close>: \<^verbatim>\<open>Format\<close> writes what the
  encoder it holds writes, and a lookup of the runtime type in the registry would have
  written the text of the encoder of \<^verbatim>\<open>func()\<close>.
\<close>

theorem Format_resolving_counterexample:
  "Format noOthers \<lparr>idx = 0, encoder = UnsupportedEncoder (unsupportedMsg exampleTypes [] 7)\<rparr> []
     [\<lparr>ityp = Some 10, word = 4096\<rparr>]
     = Inr ''\"can not encode chan int  to json\"'' \<and>
   map_sum id fst
     (Format_resolving 1 exampleTypes noOthers
        \<lparr>idx = 0, encoder = UnsupportedEncoder (unsupportedMsg exampleTypes [] 7)\<rparr> []
        [\<lparr>ityp = Some 10, word = 4096\<rparr>] emptyRegistry)
     = Inr ''\"can not encode func()  to json\"''"
  by (simp add: Format_def Format_resolving_def EncoderOf_def Encode_def PtrOf_def Let_def
        emptyRegistry_def example_defs builder_defs)

text \<open>
  C10. \<^verbatim>\<open>Format\<close> indexes \<^verbatim>\<open>kv\<close> at the formatter's index with no check of its own:
  when \<open>0 \<le> idx < len(kv)\<close> the index-out-of-range panic does not happen and
  \<^verbatim>\<open>Format\<close> returns a buffer; for every other index \<^verbatim>\<open>Format\<close> has no result, it
  panics with index out of range.
\<close>

theorem Format_index_bounds:
  "(0 \<le> idx f \<and> idx f < int (length kv) \<longrightarrow>
      Format others f space kv \<noteq> Inl IndexOutOfRange \<and>
      (\<exists>out. Format others f space kv = Inr out)) \<and>
   (\<not> (0 \<le> idx f \<and> idx f < int (length kv)) \<longrightarrow>
      Format others f space kv = Inl IndexOutOfRange)"
  by (simp add: Format_def)

theorem Format_index_bounds_witness:
  "(\<exists>out. Format noOthers \<lparr>idx = 1, encoder = StringEncoder\<rparr> []
             [\<lparr>ityp = Some 3, word = 4096\<rparr>, \<lparr>ityp = Some 2, word = 8192\<rparr>] = Inr out) \<and>
   Format noOthers \<lparr>idx = 2, encoder = StringEncoder\<rparr> []
     [\<lparr>ityp = Some 3, word = 4096\<rparr>, \<lparr>ityp = Some 2, word = 8192\<rparr>] = Inl IndexOutOfRange \<and>
   Format noOthers \<lparr>idx = - 1, encoder = StringEncoder\<rparr> []
     [\<lparr>ityp = Some 3, word = 4096\<rparr>, \<lparr>ityp = Some 2, word = 8192\<rparr>] = Inl IndexOutOfRange \<and>
   Format noOthers \<lparr>idx = 0, encoder = StringEncoder\<rparr> [] [] = Inl IndexOutOfRange"
proof -
  let ?kv = "[\<lparr>ityp = Some 3, word = 4096\<rparr>, \<lparr>ityp = Some 2, word = 8192\<rparr>]"
  have 1: "\<exists>out. Format noOthers \<lparr>idx = 1, encoder = StringEncoder\<rparr> [] ?kv = Inr out"
    using Format_index_bounds[of "\<lparr>idx = 1, encoder = StringEncoder\<rparr>" ?kv noOthers "[]"]
    by simp
  have 2: "Format noOthers \<lparr>idx = 2, encoder = StringEncoder\<rparr> [] ?kv = Inl IndexOutOfRange"
    using Format_index_bounds[of "\<lparr>idx = 2, encoder = StringEncoder\<rparr>" ?kv noOthers "[]"]
    by simp
  have 3: "Format noOthers \<lparr>idx = - 1, encoder = StringEncoder\<rparr> [] ?kv = Inl IndexOutOfRange"
    using Format_index_bounds[of "\<lparr>idx = - 1, encoder = StringEncoder\<rparr>" ?kv noOthers "[]"]
    by simp
  have 4: "Format noOthers \<lparr>idx = 0, encoder = StringEncoder\<rparr> [] [] = Inl IndexOutOfRange"
    using Format_index_bounds[of "\<lparr>idx = 0, encoder = StringEncoder\<rparr>" "[]" noOthers "[]"]
    by simp
  from 1 2 3 4 show ?thesis by blast
qed

section \<open>The goroutines of the executor (C8)\<close>

text \<open>
  C8. In a goroutine started by \<^verbatim>\<open>Go\<close>, however the handler ends, no panic goes on
  past the deferred function; a fatal event is recorded exactly when the recovered
  value is not nil and is not the string \<open>STOP!\<close>, and then it carries the recovered
  value; and the count of the start site goes down by one in every case, back to what
  it was before \<^verbatim>\<open>Go\<close> counted the goroutine.
\<close>

theorem goroutine_recovers:
  "snd (goroutine sf out w) = None \<and>
   (recovered out \<noteq> NilValue \<and> recovered out \<noteq> StringValue ''STOP!'' \<longrightarrow>
      events (fst (goroutine sf out w))
        = events w @ [FatalEvent ''event!unbounded_executor.panic'' (recovered out)]) \<and>
   (\<not> (recovered out \<noteq> NilValue \<and> recovered out \<noteq> StringValue ''STOP!'') \<longrightarrow>
      events (fst (goroutine sf out w)) = events w) \<and>
   counter (activeGoroutines (fst (goroutine sf out w))) sf
     = counter (activeGoroutines w) sf - 1 \<and>
   counter (activeGoroutines (fst (goroutine sf out (Go sf w)))) sf
     = counter (activeGoroutines w) sf"
  by (cases out)
     (auto simp: goroutine_def recover_def recovered_def countlog_Fatal_def counter_def
        Go_def StopSignal_def Let_def)


theorem goroutine_recovers_witness:
  "snd (goroutine ''main.go:10'' Returned
          \<lparr>activeGoroutines = [''main.go:10'' \<mapsto> 1], events = []\<rparr>) = None \<and>
   events (fst (goroutine ''main.go:10'' Returned
          \<lparr>activeGoroutines = [''main.go:10'' \<mapsto> 1], events = []\<rparr>)) = [] \<and>
   events (fst (goroutine ''main.go:10'' (Panicked (StringValue ''STOP!''))
          \<lparr>activeGoroutines = [''main.go:10'' \<mapsto> 1], events = []\<rparr>)) = [] \<and>
   events (fst (goroutine ''main.go:10'' (Panicked (StringValue ''boom''))
          \<lparr>activeGoroutines = [''main.go:10'' \<mapsto> 1], events = []\<rparr>))
     = [FatalEvent ''event!unbounded_executor.panic'' (StringValue ''boom'')] \<and>
   snd (goroutine ''main.go:10'' (Panicked (StringValue ''boom''))
          \<lparr>activeGoroutines = [''main.go:10'' \<mapsto> 1], events = []\<rparr>) = None \<and>
   counter (activeGoroutines (fst (goroutine ''main.go:10'' (Panicked (StringValue ''boom''))
          \<lparr>activeGoroutines = [''main.go:10'' \<mapsto> 1], events = []\<rparr>))) ''main.go:10'' = 0"
proof -
  let ?w = "\<lparr>activeGoroutines = [''main.go:10'' \<mapsto> (1 :: 64 word)], events = []\<rparr>"
  note r = goroutine_recovers[of "''main.go:10''" Returned ?w]
  note s = goroutine_recovers[of "''main.go:10''" "Panicked (StringValue ''STOP!'')" ?w]
  note b = goroutine_recovers[of "''main.go:10''" "Panicked (StringValue ''boom'')" ?w]
  have 1: "snd (goroutine ''main.go:10'' Returned ?w) = None" using r by blast
  have 2: "events (fst (goroutine ''main.go:10'' Returned ?w)) = []"
    using r by (simp add: recovered_def)
  have 3: "events (fst (goroutine ''main.go:10'' (Panicked (StringValue ''STOP!'')) ?w)) = []"
    using s by (simp add: recovered_def)
  have 4: "events (fst (goroutine ''main.go:10'' (Panicked (StringValue ''boom'')) ?w))
             = [FatalEvent ''event!unbounded_executor.panic'' (StringValue ''boom'')]"
    using b by (simp add: recovered_def)
  have 5: "snd (goroutine ''main.go:10'' (Panicked (StringValue ''boom'')) ?w) = None"
    using b by blast
  have 6: "counter (activeGoroutines (fst (goroutine ''main.go:10''
              (Panicked (StringValue ''boom'')) ?w))) ''main.go:10'' = 0"
    using b by (simp add: counter_def)
  from 1 2 3 4 5 6 show ?thesis by blast
qed

end
